theory Spec2Isabelle
  imports Complex_Main "HOL-Library.Option_ord"
begin

section \<open>JavaScript values at the HTTP boundary\<close>

text \<open>
  The handlers of \<^verbatim>\<open>src/index.js\<close> read loosely typed request parameters. A query-string
  parameter is a string or \<^verbatim>\<open>undefined\<close>, modelled as \<open>string option\<close>; one \<open>char\<close> stands
  for one UTF-16 code unit, so \<open>length\<close> is the JavaScript \<^verbatim>\<open>.length\<close>. A number produced
  by \<^verbatim>\<open>parseInt\<close> is an integer or \<^verbatim>\<open>NaN\<close> (the model is exact; the rounding of integers
  beyond \<open>2^53\<close> to a double is not modelled).
\<close>

datatype js_num = NaN | Num int

text \<open>Truthiness of a string parameter, as \<^verbatim>\<open>!x\<close>, \<^verbatim>\<open>x ? a : b\<close> and \<^verbatim>\<open>if (x)\<close> read it.\<close>

fun truthy_str :: "string option \<Rightarrow> bool" where
  "truthy_str None = False"
| "truthy_str (Some s) = (s \<noteq> [])"

text \<open>
  \<^verbatim>\<open>parseInt(string)\<close> with no radix: leading white space is skipped, a sign is read,
  a \<^verbatim>\<open>0x\<close> prefix selects radix 16, and the longest prefix of digits is the value; when
  there is no digit the result is \<^verbatim>\<open>NaN\<close>. Whatever follows the digits is ignored.
\<close>

definition isWhiteSpace :: "char \<Rightarrow> bool" where
  "isWhiteSpace c = (of_char c \<in> {32, 9, 10, 11, 12, 13, 160 :: nat})"

definition digitValue :: "char \<Rightarrow> nat option" where
  "digitValue c =
     (let n = (of_char c :: nat) in
      if 48 \<le> n \<and> n \<le> 57 then Some (n - 48)
      else if 97 \<le> n \<and> n \<le> 122 then Some (n - 87)
      else if 65 \<le> n \<and> n \<le> 90 then Some (n - 55)
      else None)"

fun digitsPrefix :: "nat \<Rightarrow> string \<Rightarrow> nat list" where
  "digitsPrefix R [] = []"
| "digitsPrefix R (c # cs) =
     (case digitValue c of
        None \<Rightarrow> []
      | Some d \<Rightarrow> if d < R then d # digitsPrefix R cs else [])"

definition stripSign :: "string \<Rightarrow> int \<times> string" where
  "stripSign s =
     (case s of
        [] \<Rightarrow> (1, s)
      | c # r \<Rightarrow> if c = CHR ''-'' then (- 1, r)
                 else if c = CHR ''+'' then (1, r)
                 else (1, s))"

definition stripRadix :: "string \<Rightarrow> nat \<times> string" where
  "stripRadix s =
     (if take 2 s = ''0x'' \<or> take 2 s = ''0X'' then (16, drop 2 s) else (10, s))"

definition parseInt :: "string \<Rightarrow> js_num" where
  "parseInt s =
     (let (sign, s2) = stripSign (dropWhile isWhiteSpace s);
          (R, s3) = stripRadix s2;
          ds = digitsPrefix R s3
      in if ds = [] then NaN
         else Num (sign * int (foldl (\<lambda>a d. a * R + d) 0 ds)))"

text \<open>\<^verbatim>\<open>s.split(',')\<close>: the pieces between commas, at least one piece.\<close>

fun split_comma :: "string \<Rightarrow> string list" where
  "split_comma [] = [[]]"
| "split_comma (c # cs) =
     (if c = CHR '','' then [] # split_comma cs
      else (case split_comma cs of
              [] \<Rightarrow> [[c]]
            | p # ps \<Rightarrow> (c # p) # ps))"

section \<open>The content record\<close>

text \<open>
  The schema of \<^verbatim>\<open>src/models/SearchIndex.js\<close>, and the records as the collection holds
  them. Object ids are opaque strings. A reference field of a stored record is absent,
  \<^verbatim>\<open>null\<close> or an object id: the schema's default \<^verbatim>\<open>null\<close> is applied when this service
  constructs a document, not to what the collection holds. A rating is a JavaScript
  number, taken here as a rational. The open-ended \<^verbatim>\<open>metadata.custom\<close> and
  \<^verbatim>\<open>searchableFields\<close> maps are left out: no operation below reads or writes them.
  Timestamps are milliseconds since the epoch.
\<close>

type_synonym oid = string

datatype ref_value = Missing | Null | Ref oid

text \<open>
  An id as JavaScript hands it around: the string of a request parameter, or an
  \<^verbatim>\<open>ObjectId\<close>. The database never finds a string equal to a stored \<^verbatim>\<open>ObjectId\<close>.
\<close>

datatype js_id = Str string | ObjectId oid

record metadata =
  rating :: "rat option"
  sentiment :: "string option"
  language :: "string option"
  source :: "string option"
  author :: "string option"

record doc =
  docId :: nat
  businessId :: oid
  franchiseId :: ref_value
  contentType :: string
  contentId :: oid
  title :: string
  content :: string
  tags :: "string list"
  categories :: "string list"
  metadata :: metadata
  isActive :: bool
  indexedAt :: int
  createdAt :: int
  updatedAt :: int

text \<open>
  A request body for the indexing routes: every field may be missing. For a bulk item
  and an update the whole body reaches the model, so \<open>p_isActive\<close> and \<open>p_indexedAt\<close>
  are fields a caller can send.
\<close>

record payload =
  p_businessId :: "oid option"
  p_franchiseId :: "oid option"
  p_contentType :: "string option"
  p_contentId :: "oid option"
  p_title :: "string option"
  p_content :: "string option"
  p_tags :: "string list option"
  p_categories :: "string list option"
  p_metadata :: "metadata option"
  p_isActive :: "bool option"
  p_indexedAt :: "int option"

section \<open>The storage collaborator\<close>

text \<open>
  Queries are handed to the document database through Mongoose. The filter document
  is a list of clauses in the order the source assigns its keys; the sort document is
  a list of keys with a direction (\<^verbatim>\<open>1\<close> or \<^verbatim>\<open>-1\<close>).
\<close>

datatype clause =
    TextSearch string
  | BusinessIdIs js_id
  | BusinessIdFresh
  | FranchiseIdIs js_id
  | ContentTypeIs string
  | TagsIn "string list"
  | CategoriesIn "string list"
  | RatingIs js_num
  | RatingGte js_num
  | SentimentIs string
  | LanguageIs string
  | IsActiveIs bool
  | TitleOrTagsRegex string

datatype sort_field = TextScore | MetadataRating | IndexedAt

datatype direction = Asc | Desc

type_synonym sort_spec = "(sort_field \<times> direction) list"

datatype stage =
    Match "clause list"
  | UnwindTags
  | GroupByTagCount
  | SortCountDesc
  | Limit js_num
  | GroupByContentType
  | ProjectStats
  | ProjectSuggestion

datatype storage_call =
    Find "clause list" sort_spec js_num js_num
  | Aggregate "stage list"
  | Save doc
  | InsertMany "doc list"
  | FindByIdAndUpdate nat payload int

text \<open>
  What the collaborator decides by itself is a parameter of the model: the text index
  (\<open>text_index q d\<close> is the relevance score of \<open>d\<close> for \<open>q\<close>, or \<open>None\<close> when \<open>d\<close> does
  not match), case-insensitive regular-expression matching, which strings denote an
  object id, and which calls it refuses whatever the collection holds (a lost
  connection, an operation it does not support).
\<close>

record engine =
  text_index :: "string \<Rightarrow> doc \<Rightarrow> rat option"
  regex_i :: "string \<Rightarrow> string \<Rightarrow> bool"
  oid_ok :: "string \<Rightarrow> bool"
  refuses :: "storage_call \<Rightarrow> bool"

text \<open>
  The state of the collaborator: the collection, the next fresh \<^verbatim>\<open>_id\<close>, and the calls
  it has received so far (so that "no query is issued" can be stated).
\<close>

record store =
  docs :: "doc list"
  next_id :: nat
  calls :: "storage_call list"

datatype error = ValidationError | StorageError | CastError | MissingSchemaError

definition issue :: "storage_call \<Rightarrow> store \<Rightarrow> store" where
  "issue c st = st\<lparr>calls := calls st @ [c]\<rparr>"

subsection \<open>Filtering\<close>

fun matches :: "engine \<Rightarrow> clause \<Rightarrow> doc \<Rightarrow> bool" where
  "matches E (TextSearch q) d = (text_index E q d \<noteq> None)"
| "matches E (BusinessIdIs (ObjectId b)) d = (businessId d = b)"
| "matches E (BusinessIdIs (Str s)) d = False"
| "matches E BusinessIdFresh d = False"
| "matches E (FranchiseIdIs (ObjectId f)) d = (franchiseId d = Ref f)"
| "matches E (FranchiseIdIs (Str s)) d = False"
| "matches E (ContentTypeIs t) d = (contentType d = t)"
| "matches E (TagsIn ts) d = list_ex (\<lambda>t. t \<in> set ts) (tags d)"
| "matches E (CategoriesIn cs) d = list_ex (\<lambda>c. c \<in> set cs) (categories d)"
| "matches E (RatingIs NaN) d = False"
| "matches E (RatingIs (Num n)) d = (rating (metadata d) = Some (of_int n))"
| "matches E (RatingGte NaN) d = False"
| "matches E (RatingGte (Num n)) d =
     (case rating (metadata d) of None \<Rightarrow> False | Some r \<Rightarrow> of_int n \<le> r)"
| "matches E (SentimentIs s) d = (sentiment (metadata d) = Some s)"
| "matches E (LanguageIs l) d = (language (metadata d) = Some l)"
| "matches E (IsActiveIs b) d = (isActive d = b)"
| "matches E (TitleOrTagsRegex q) d =
     (regex_i E q (title d) \<or> list_ex (regex_i E q) (tags d))"

definition match_all :: "engine \<Rightarrow> clause list \<Rightarrow> doc list \<Rightarrow> doc list" where
  "match_all E cs ds = filter (\<lambda>d. list_all (\<lambda>c. matches E c d) cs) ds"

subsection \<open>Sorting\<close>

text \<open>
  A missing value sorts below every number (\<open>None < Some x\<close>). Documents are compared
  key by key; the sort is an insertion sort that keeps the stored order among
  documents whose keys are all equal (the database leaves that order open).
\<close>

fun text_of :: "clause list \<Rightarrow> string option" where
  "text_of [] = None"
| "text_of (TextSearch q # cs) = Some q"
| "text_of (c # cs) = text_of cs"

fun sort_value :: "engine \<Rightarrow> string option \<Rightarrow> sort_field \<Rightarrow> doc \<Rightarrow> rat option" where
  "sort_value E None TextScore d = None"
| "sort_value E (Some q) TextScore d = text_index E q d"
| "sort_value E qo MetadataRating d = rating (metadata d)"
| "sort_value E qo IndexedAt d = Some (of_int (indexedAt d))"

fun sort_le :: "(sort_field \<Rightarrow> 'a \<Rightarrow> rat option) \<Rightarrow> sort_spec \<Rightarrow> 'a \<Rightarrow> 'a \<Rightarrow> bool" where
  "sort_le k [] a b = True"
| "sort_le k ((f, dir) # fs) a b =
     (if k f a = k f b then sort_le k fs a b
      else (case dir of Asc \<Rightarrow> k f a < k f b | Desc \<Rightarrow> k f b < k f a))"

fun insert_sorted :: "('a \<Rightarrow> 'a \<Rightarrow> bool) \<Rightarrow> 'a \<Rightarrow> 'a list \<Rightarrow> 'a list" where
  "insert_sorted le x [] = [x]"
| "insert_sorted le x (y # ys) =
     (if le x y then x # y # ys else y # insert_sorted le x ys)"

definition sort_by :: "('a \<Rightarrow> 'a \<Rightarrow> bool) \<Rightarrow> 'a list \<Rightarrow> 'a list" where
  "sort_by le xs = foldr (insert_sorted le) xs []"

subsection \<open>find\<close>

text \<open>
  \<^verbatim>\<open>Model.find(filter).sort(s).limit(n).skip(k)\<close>: the database filters, sorts, skips and
  then limits, whatever the order of the chained calls; a chain without \<^verbatim>\<open>skip\<close> skips
  nothing. A limit of \<open>0\<close> is no limit and a negative limit is read as its absolute
  value; a negative skip and a bound that is not a number are rejected. Sorting by
  the text score when the filter has no text clause compares nothing (whether the
  database accepts that sort is part of \<open>refuses\<close>).
\<close>

definition apply_limit :: "int \<Rightarrow> 'a list \<Rightarrow> 'a list" where
  "apply_limit n xs = (if n = 0 then xs else take (nat \<bar>n\<bar>) xs)"

definition find_result :: "engine \<Rightarrow> clause list \<Rightarrow> sort_spec \<Rightarrow> int \<Rightarrow> int \<Rightarrow> doc list \<Rightarrow> doc list" where
  "find_result E cs sp n k ds =
     apply_limit n (drop (nat k) (sort_by (sort_le (sort_value E (text_of cs)) sp) (match_all E cs ds)))"

text \<open>
  Mongoose casts the filter of a \<^verbatim>\<open>find\<close> to the schema before it sends it: a string given
  for an \<^verbatim>\<open>ObjectId\<close> path becomes the \<^verbatim>\<open>ObjectId\<close> it denotes, or the query is rejected with
  a cast error when it denotes none. (The pipeline of an \<^verbatim>\<open>aggregate\<close> is sent as it is.)
\<close>

fun cast_clause :: "engine \<Rightarrow> clause \<Rightarrow> clause option" where
  "cast_clause E (BusinessIdIs (Str s)) =
     (if oid_ok E s then Some (BusinessIdIs (ObjectId s)) else None)"
| "cast_clause E (FranchiseIdIs (Str s)) =
     (if oid_ok E s then Some (FranchiseIdIs (ObjectId s)) else None)"
| "cast_clause E c = Some c"

definition cast_filter :: "engine \<Rightarrow> clause list \<Rightarrow> clause list option" where
  "cast_filter E cs = those (map (cast_clause E) cs)"

text \<open>
  \<^verbatim>\<open>populate(path)\<close> on the records found. The schema gives \<^verbatim>\<open>businessId\<close> the reference
  \<^verbatim>\<open>'Business'\<close> and \<^verbatim>\<open>franchiseId\<close> the reference \<^verbatim>\<open>'Franchise'\<close>; \<^verbatim>\<open>contentId\<close> has none, so
  populating it looks nothing up. The only model this service registers is
  \<^verbatim>\<open>'SearchIndex'\<close> (the last line of \<^verbatim>\<open>SearchIndex.js\<close>). Mongoose looks the referenced
  model up for every record that has a value at the path, \<^verbatim>\<open>null\<close> included, and the
  query is rejected when that model is not registered; a record without the field
  asks for no lookup. (Were the model registered, the reference would be replaced by
  the projection of the referenced record, which is no part of this model.)
\<close>

definition schema_ref :: "string \<Rightarrow> string option" where
  "schema_ref path =
     (if path = ''businessId'' then Some ''Business''
      else if path = ''franchiseId'' then Some ''Franchise''
      else None)"

definition registered_models :: "string list" where
  "registered_models = [''SearchIndex'']"

definition has_value :: "string \<Rightarrow> doc \<Rightarrow> bool" where
  "has_value path d = (if path = ''franchiseId'' then franchiseId d \<noteq> Missing else True)"

definition populate :: "string \<Rightarrow> doc list \<Rightarrow> error + doc list" where
  "populate path ds =
     (case schema_ref path of
        None \<Rightarrow> Inr ds
      | Some m \<Rightarrow>
          if m \<in> set registered_models \<or> \<not> list_ex (has_value path) ds then Inr ds
          else Inl MissingSchemaError)"

fun populate_all :: "string list \<Rightarrow> doc list \<Rightarrow> error + doc list" where
  "populate_all [] ds = Inr ds"
| "populate_all (path # paths) ds =
     (case populate path ds of Inl e \<Rightarrow> Inl e | Inr ds' \<Rightarrow> populate_all paths ds')"

text \<open>
  The whole chain \<^verbatim>\<open>find(...).sort(...).limit(...).skip(...).populate(...)...lean()\<close>;
  \<open>pops\<close> are the populated paths in order. \<^verbatim>\<open>lean\<close> changes none of the fields of the
  records.
\<close>

definition find_docs ::
  "engine \<Rightarrow> clause list \<Rightarrow> sort_spec \<Rightarrow> js_num \<Rightarrow> js_num \<Rightarrow> string list \<Rightarrow> store \<Rightarrow>
   (error + doc list) \<times> store" where
  "find_docs E cs sp lm sk pops st =
     (let call = Find cs sp lm sk; st' = issue call st in
      if refuses E call then (Inl StorageError, st')
      else (case cast_filter E cs of
              None \<Rightarrow> (Inl CastError, st')
            | Some cs' \<Rightarrow>
                (case (lm, sk) of
                   (Num n, Num k) \<Rightarrow>
                     if k < 0 then (Inl StorageError, st')
                     else (populate_all pops (find_result E cs' sp n k (docs st)), st')
                 | _ \<Rightarrow> (Inl StorageError, st'))))"

subsection \<open>Aggregation stages\<close>

text \<open>
  \<^verbatim>\<open>$unwind: '$tags'\<close> yields one row per tag value; \<^verbatim>\<open>$group\<close> with \<^verbatim>\<open>$sum: 1\<close> yields one
  row \<open>(tag, count)\<close> per distinct tag (listed by first occurrence; the database leaves
  the order of groups open); \<^verbatim>\<open>$sort: {count: -1}\<close>; \<^verbatim>\<open>$limit\<close>, which the database rejects
  unless the bound is a positive number.
\<close>

definition unwind_tags :: "doc list \<Rightarrow> string list" where
  "unwind_tags ds = concat (map tags ds)"

definition group_count :: "string list \<Rightarrow> (string \<times> nat) list" where
  "group_count ts = map (\<lambda>t. (t, count_list ts t)) (rev (remdups (rev ts)))"

definition sort_count_desc :: "(string \<times> nat) list \<Rightarrow> (string \<times> nat) list" where
  "sort_count_desc rows = sort_by (\<lambda>a b. snd b \<le> snd a) rows"

definition limit_stage :: "js_num \<Rightarrow> 'a list \<Rightarrow> 'a list option" where
  "limit_stage lm rows =
     (case lm of NaN \<Rightarrow> None | Num n \<Rightarrow> if n \<le> 0 then None else Some (take (nat n) rows))"

text \<open>
  The groups of the content statistics: \<^verbatim>\<open>$avg\<close> ignores records without a rating and is
  null when there is none; \<^verbatim>\<open>$push\<close> collects the sentiments that are present;
  \<^verbatim>\<open>$round\<close> rounds to two decimal places, halves to the even neighbour (on exact
  rationals here, on doubles in the database).
\<close>

record content_stat =
  cs_id :: string
  cs_contentType :: string
  cs_count :: nat
  cs_avgRating :: "rat option"
  cs_sentimentBreakdown :: "string list"

definition present :: "'a option list \<Rightarrow> 'a list" where
  "present xs = concat (map (\<lambda>x. case x of None \<Rightarrow> [] | Some v \<Rightarrow> [v]) xs)"

definition avg :: "rat list \<Rightarrow> rat option" where
  "avg rs = (if rs = [] then None else Some (sum_list rs / of_nat (length rs)))"

definition round_half_even :: "rat \<Rightarrow> int" where
  "round_half_even x =
     (let f = \<lfloor>x\<rfloor>; r = x - of_int f in
      if r < 1 / 2 then f else if 1 / 2 < r then f + 1 else if even f then f else f + 1)"

definition round2 :: "rat \<Rightarrow> rat" where
  "round2 x = of_int (round_half_even (x * 100)) / 100"

definition group_by_contentType :: "doc list \<Rightarrow> (string \<times> doc list) list" where
  "group_by_contentType ds =
     map (\<lambda>t. (t, filter (\<lambda>d. contentType d = t) ds)) (rev (remdups (rev (map contentType ds))))"

definition project_stats :: "string \<times> doc list \<Rightarrow> content_stat" where
  "project_stats g =
     \<lparr>cs_id = fst g, cs_contentType = fst g, cs_count = length (snd g),
      cs_avgRating = map_option round2 (avg (present (map (\<lambda>d. rating (metadata d)) (snd g)))),
      cs_sentimentBreakdown = present (map (\<lambda>d. sentiment (metadata d)) (snd g))\<rparr>"

record suggestion =
  sg_id :: nat
  sg_title :: string
  sg_tags :: "string list"
  sg_contentType :: string

definition project_suggestion :: "doc \<Rightarrow> suggestion" where
  "project_suggestion d =
     \<lparr>sg_id = docId d, sg_title = title d, sg_tags = tags d, sg_contentType = contentType d\<rparr>"

section \<open>The model: schema validation, middleware, methods\<close>

text \<open>
  The validators the schema declares. \<^verbatim>\<open>save\<close> and \<^verbatim>\<open>insertMany\<close> run them;
  \<^verbatim>\<open>findByIdAndUpdate\<close> does not.
\<close>

definition contentTypes :: "string list" where
  "contentTypes = [''submission'', ''form'', ''staff'', ''franchise'', ''business'',
                   ''discount'', ''notification'', ''report'']"

definition sentiments :: "string list" where
  "sentiments = [''positive'', ''negative'', ''neutral'']"

fun opt_ok :: "('a \<Rightarrow> bool) \<Rightarrow> 'a option \<Rightarrow> bool" where
  "opt_ok P None = True"
| "opt_ok P (Some v) = P v"

definition valid_metadata :: "metadata \<Rightarrow> bool" where
  "valid_metadata m =
     (opt_ok (\<lambda>r. 1 \<le> r \<and> r \<le> 5) (rating m) \<and>
      opt_ok (\<lambda>s. s \<in> set sentiments) (sentiment m) \<and>
      opt_ok (\<lambda>l. length l \<le> 10) (language m) \<and>
      opt_ok (\<lambda>s. length s \<le> 50) (source m) \<and>
      opt_ok (\<lambda>a. length a \<le> 100) (author m))"

definition valid_doc :: "engine \<Rightarrow> doc \<Rightarrow> bool" where
  "valid_doc E d =
     (oid_ok E (businessId d) \<and>
      (case franchiseId d of Ref f \<Rightarrow> oid_ok E f | _ \<Rightarrow> True) \<and>
      contentType d \<in> set contentTypes \<and>
      oid_ok E (contentId d) \<and>
      title d \<noteq> [] \<and> length (title d) \<le> 200 \<and>
      content d \<noteq> [] \<and> length (content d) \<le> 5000 \<and>
      list_all (\<lambda>t. length t \<le> 50) (tags d) \<and>
      list_all (\<lambda>c. length c \<le> 50) (categories d) \<and>
      valid_metadata (metadata d))"

text \<open>
  \<^verbatim>\<open>new SearchIndex(p)\<close> with the schema's defaults (\<^verbatim>\<open>franchiseId\<close> \<^verbatim>\<open>null\<close>, \<^verbatim>\<open>language\<close> \<^verbatim>\<open>'en'\<close>,
  \<^verbatim>\<open>isActive\<close> true, the three timestamps now). The result is \<open>None\<close> when a required path is missing,
  which the validation of \<^verbatim>\<open>save\<close> and \<^verbatim>\<open>insertMany\<close> then reports.
\<close>

definition new_metadata :: "metadata option \<Rightarrow> metadata" where
  "new_metadata mo =
     (case mo of
        None \<Rightarrow> \<lparr>rating = None, sentiment = None, language = Some ''en'', source = None,
                  author = None\<rparr>
      | Some m \<Rightarrow> (case language m of None \<Rightarrow> m\<lparr>language := Some ''en''\<rparr> | Some l \<Rightarrow> m))"

fun or_default :: "'a \<Rightarrow> 'a option \<Rightarrow> 'a" where
  "or_default v None = v"
| "or_default v (Some x) = x"

definition newSearchIndex :: "int \<Rightarrow> nat \<Rightarrow> payload \<Rightarrow> doc option" where
  "newSearchIndex now i p =
     (case (p_businessId p, p_contentType p, p_contentId p, p_title p, p_content p) of
        (Some b, Some ct, Some ci, Some t, Some c) \<Rightarrow>
          Some \<lparr>docId = i, businessId = b,
                franchiseId = (case p_franchiseId p of None \<Rightarrow> Null | Some f \<Rightarrow> Ref f),
                contentType = ct,
                contentId = ci, title = t, content = c,
                tags = or_default [] (p_tags p),
                categories = or_default [] (p_categories p),
                metadata = new_metadata (p_metadata p),
                isActive = or_default True (p_isActive p),
                indexedAt = or_default now (p_indexedAt p),
                createdAt = now, updatedAt = now\<rparr>
      | _ \<Rightarrow> None)"

text \<open>The \<^verbatim>\<open>pre('save')\<close> middleware.\<close>

definition pre_save :: "int \<Rightarrow> doc \<Rightarrow> doc" where
  "pre_save now d = d\<lparr>updatedAt := now, indexedAt := now\<rparr>"

fun upsert :: "doc \<Rightarrow> doc list \<Rightarrow> doc list" where
  "upsert d [] = [d]"
| "upsert d (x # xs) = (if docId x = docId d then d # xs else x # upsert d xs)"

text \<open>
  \<^verbatim>\<open>document.save()\<close>: validation first, then the \<^verbatim>\<open>pre('save')\<close> middleware, then the
  write. The result is the document as it stands in memory afterwards, the error the
  promise rejects with (if any), and the store.
\<close>

definition save :: "engine \<Rightarrow> int \<Rightarrow> doc \<Rightarrow> store \<Rightarrow> doc \<times> error option \<times> store" where
  "save E now d st =
     (if \<not> valid_doc E d then (d, Some ValidationError, st)
      else
        let d' = pre_save now d; call = Save d'; st' = issue call st in
        if refuses E call then (d', Some StorageError, st')
        else (d', None, st'\<lparr>docs := upsert d' (docs st'),
                                next_id := max (next_id st') (Suc (docId d'))\<rparr>))"

definition updateContent ::
  "engine \<Rightarrow> int \<Rightarrow> string \<Rightarrow> doc \<Rightarrow> store \<Rightarrow> doc \<times> error option \<times> store" where
  "updateContent E now newContent d st = save E now (d\<lparr>content := newContent, indexedAt := now\<rparr>) st"

definition addTag ::
  "engine \<Rightarrow> int \<Rightarrow> string \<Rightarrow> doc \<Rightarrow> store \<Rightarrow> doc \<times> error option \<times> store" where
  "addTag E now tag d st =
     save E now (if \<not> tag \<in> set (tags d) then d\<lparr>tags := tags d @ [tag]\<rparr> else d) st"

definition removeTag ::
  "engine \<Rightarrow> int \<Rightarrow> string \<Rightarrow> doc \<Rightarrow> store \<Rightarrow> doc \<times> error option \<times> store" where
  "removeTag E now tag d st = save E now (d\<lparr>tags := filter (\<lambda>t. t \<noteq> tag) (tags d)\<rparr>) st"

text \<open>
  \<^verbatim>\<open>Model.insertMany\<close>: every document is validated before anything is sent, and one
  failure rejects the whole batch; the \<^verbatim>\<open>pre('save')\<close> middleware does not run.
\<close>

definition insertMany ::
  "engine \<Rightarrow> int \<Rightarrow> payload list \<Rightarrow> store \<Rightarrow> (error + doc list) \<times> store" where
  "insertMany E now items st =
     (case those (map2 (newSearchIndex now) [next_id st ..< next_id st + length items] items) of
        None \<Rightarrow> (Inl ValidationError, st)
      | Some ds \<Rightarrow>
          if \<not> list_all (valid_doc E) ds then (Inl ValidationError, st)
          else
            let call = InsertMany ds; st' = issue call st in
            if refuses E call then (Inl StorageError, st')
            else (Inr ds, st'\<lparr>docs := docs st' @ ds, next_id := next_id st' + length ds\<rparr>))"

text \<open>
  \<^verbatim>\<open>Model.findByIdAndUpdate(id, update, {new: true})\<close>: every field present in the update
  is set, \<^verbatim>\<open>updatedAt\<close> is set by the \<^verbatim>\<open>timestamps\<close> option, no validator runs, and the
  updated document is returned (\<^verbatim>\<open>null\<close> when no document has the id).
\<close>

definition apply_update :: "int \<Rightarrow> payload \<Rightarrow> doc \<Rightarrow> doc" where
  "apply_update now u d =
     d\<lparr>businessId := or_default (businessId d) (p_businessId u),
       franchiseId := (case p_franchiseId u of None \<Rightarrow> franchiseId d | Some f \<Rightarrow> Ref f),
       contentType := or_default (contentType d) (p_contentType u),
       contentId := or_default (contentId d) (p_contentId u),
       title := or_default (title d) (p_title u),
       content := or_default (content d) (p_content u),
       tags := or_default (tags d) (p_tags u),
       categories := or_default (categories d) (p_categories u),
       metadata := or_default (metadata d) (p_metadata u),
       isActive := or_default (isActive d) (p_isActive u),
       indexedAt := or_default (indexedAt d) (p_indexedAt u),
       updatedAt := now\<rparr>"

definition findByIdAndUpdate ::
  "engine \<Rightarrow> int \<Rightarrow> nat \<Rightarrow> payload \<Rightarrow> store \<Rightarrow> (error + doc option) \<times> store" where
  "findByIdAndUpdate E now i u st =
     (let call = FindByIdAndUpdate i u now; st' = issue call st in
      if refuses E call then (Inl StorageError, st')
      else (case List.find (\<lambda>d. docId d = i) (docs st') of
              None \<Rightarrow> (Inr None, st')
            | Some d \<Rightarrow>
                (Inr (Some (apply_update now u d)),
                 st'\<lparr>docs := upsert (apply_update now u d) (docs st')\<rparr>)))"

section \<open>The model: static query helpers\<close>

text \<open>
  The options object of \<^verbatim>\<open>search\<close>: the keys its destructuring reads; a missing key is
  \<open>None\<close>. Any other key of the object passed in (an \<^verbatim>\<open>isActive\<close> among the filters of the
  advanced search, say) is not read.
\<close>

record options =
  o_businessId :: "string option"
  o_franchiseId :: "string option"
  o_contentType :: "string option"
  o_tags :: "string list option"
  o_categories :: "string list option"
  o_rating :: "js_num option"
  o_sentiment :: "string option"
  o_language :: "string option"
  o_limit :: "js_num option"
  o_offset :: "js_num option"
  o_sortBy :: "sort_spec option"

text \<open>\<^verbatim>\<open>if (x) searchQuery.key = x\<close>, for a string, a list (\<^verbatim>\<open>x && x.length > 0\<close>) and a number.\<close>

fun opt_str :: "(string \<Rightarrow> clause) \<Rightarrow> string option \<Rightarrow> clause list" where
  "opt_str f None = []"
| "opt_str f (Some s) = (if s \<noteq> [] then [f s] else [])"

fun opt_list :: "(string list \<Rightarrow> clause) \<Rightarrow> string list option \<Rightarrow> clause list" where
  "opt_list f None = []"
| "opt_list f (Some xs) = (if 0 < length xs then [f xs] else [])"

fun opt_num :: "(js_num \<Rightarrow> clause) \<Rightarrow> js_num option \<Rightarrow> clause list" where
  "opt_num f None = []"
| "opt_num f (Some NaN) = []"
| "opt_num f (Some (Num n)) = (if n \<noteq> 0 then [f (Num n)] else [])"

definition searchQuery :: "string option \<Rightarrow> options \<Rightarrow> clause list" where
  "searchQuery query opts =
     opt_str TextSearch query @
     opt_str (\<lambda>s. BusinessIdIs (Str s)) (o_businessId opts) @
     opt_str (\<lambda>s. FranchiseIdIs (Str s)) (o_franchiseId opts) @
     opt_str ContentTypeIs (o_contentType opts) @
     opt_list TagsIn (o_tags opts) @
     opt_list CategoriesIn (o_categories opts) @
     opt_num RatingIs (o_rating opts) @
     opt_str SentimentIs (o_sentiment opts) @
     opt_str LanguageIs (o_language opts) @
     [IsActiveIs True]"

definition search :: "engine \<Rightarrow> string option \<Rightarrow> options \<Rightarrow> store \<Rightarrow> (error + doc list) \<times> store" where
  "search E query opts st =
     find_docs E (searchQuery query opts)
       (or_default [(TextScore, Desc), (IndexedAt, Desc)] (o_sortBy opts))
       (or_default (Num 50) (o_limit opts))
       (or_default (Num 0) (o_offset opts))
       [''contentId'', ''franchiseId''] st"

definition searchByContentType ::
  "engine \<Rightarrow> string \<Rightarrow> string option \<Rightarrow> options \<Rightarrow> store \<Rightarrow> (error + doc list) \<times> store" where
  "searchByContentType E ct query opts st = search E query (opts\<lparr>o_contentType := Some ct\<rparr>) st"

text \<open>
  The statics below take the business id as the caller hands it over. A \<^verbatim>\<open>find\<close> casts
  it; the \<^verbatim>\<open>$match\<close> of an aggregation does not.
\<close>

definition popularTagsPipeline :: "js_id \<Rightarrow> js_num \<Rightarrow> stage list" where
  "popularTagsPipeline b lm =
     [Match [BusinessIdIs b, IsActiveIs True], UnwindTags, GroupByTagCount, SortCountDesc, Limit lm]"

definition getPopularTags ::
  "engine \<Rightarrow> js_id \<Rightarrow> js_num option \<Rightarrow> store \<Rightarrow> (error + (string \<times> nat) list) \<times> store" where
  "getPopularTags E b lo st =
     (let lm = or_default (Num 20) lo;
          call = Aggregate (popularTagsPipeline b lm);
          st' = issue call st in
      if refuses E call then (Inl StorageError, st')
      else (case limit_stage lm
                   (sort_count_desc (group_count (unwind_tags
                      (match_all E [BusinessIdIs b, IsActiveIs True] (docs st))))) of
              None \<Rightarrow> (Inl StorageError, st')
            | Some rows \<Rightarrow> (Inr rows, st')))"

definition getContentStats ::
  "engine \<Rightarrow> js_id \<Rightarrow> store \<Rightarrow> (error + content_stat list) \<times> store" where
  "getContentStats E b st =
     (let call = Aggregate [Match [BusinessIdIs b, IsActiveIs True], GroupByContentType, ProjectStats];
          st' = issue call st in
      if refuses E call then (Inl StorageError, st')
      else (Inr (map project_stats (group_by_contentType
                   (match_all E [BusinessIdIs b, IsActiveIs True] (docs st)))), st'))"

definition getRecentContent ::
  "engine \<Rightarrow> js_id \<Rightarrow> js_num option \<Rightarrow> store \<Rightarrow> (error + doc list) \<times> store" where
  "getRecentContent E b lo st =
     find_docs E [BusinessIdIs b, IsActiveIs True] [(IndexedAt, Desc)]
       (or_default (Num 20) lo) (Num 0) [''contentId'', ''franchiseId''] st"

definition getContentByRating ::
  "engine \<Rightarrow> js_id \<Rightarrow> js_num option \<Rightarrow> js_num option \<Rightarrow> store \<Rightarrow> (error + doc list) \<times> store" where
  "getContentByRating E b mo lo st =
     find_docs E [BusinessIdIs b, RatingGte (or_default (Num 4) mo), IsActiveIs True]
       [(MetadataRating, Desc), (IndexedAt, Desc)]
       (or_default (Num 20) lo) (Num 0) [''contentId'', ''franchiseId''] st"

section \<open>The HTTP handlers\<close>

text \<open>
  Every handler takes the request and the store and returns the response envelope and
  the store. The status is \<open>200\<close> unless the handler sets another one; a rejected
  promise or a thrown exception inside \<^verbatim>\<open>try\<close> is the \<open>500\<close> branch of \<^verbatim>\<open>catch\<close>. The clock
  (\<^verbatim>\<open>new Date()\<close>) is read as one instant \<open>now\<close> for the whole request.
\<close>

record 'a response =
  status :: nat
  success :: bool
  error :: "string option"
  data :: "'a option"
  count' :: "nat option"

definition failure :: "nat \<Rightarrow> string \<Rightarrow> 'a response" where
  "failure code msg = \<lparr>status = code, success = False, error = Some msg, data = None, count' = None\<rparr>"

subsection \<open>GET /api/search\<close>

text \<open>
  The query string of a GET request, as the handlers destructure it: a missing
  parameter is \<open>None\<close>. (\<^verbatim>\<open>minRating\<close> is read by the high-rated handler only.)
\<close>

record search_req =
  rq_q :: "string option"
  rq_businessId :: "string option"
  rq_franchiseId :: "string option"
  rq_contentType :: "string option"
  rq_tags :: "string option"
  rq_categories :: "string option"
  rq_rating :: "string option"
  rq_sentiment :: "string option"
  rq_language :: "string option"
  rq_limit :: "string option"
  rq_offset :: "string option"
  rq_sortBy :: "string option"
  rq_minRating :: "string option"

record search_response = "doc list response" +
  r_contentType :: "string option"
  r_query :: "string option"
  r_filters :: "options option"

definition search_failure :: "nat \<Rightarrow> string \<Rightarrow> search_response" where
  "search_failure code msg =
     \<lparr>status = code, success = False, error = Some msg, data = None, count' = None,
      r_contentType = None, r_query = None, r_filters = None\<rparr>"

text \<open>\<^verbatim>\<open>x ? f(x) : undefined\<close> for a query-string parameter.\<close>

fun if_given :: "(string \<Rightarrow> 'a) \<Rightarrow> string option \<Rightarrow> 'a option" where
  "if_given f None = None"
| "if_given f (Some s) = (if s \<noteq> [] then Some (f s) else None)"

text \<open>The options both GET handlers build; \<open>ct\<close> is the \<^verbatim>\<open>contentType\<close> key, if there is one.\<close>

definition request_options :: "string option \<Rightarrow> search_req \<Rightarrow> options" where
  "request_options ct rq =
     \<lparr>o_businessId = rq_businessId rq,
      o_franchiseId = rq_franchiseId rq,
      o_contentType = ct,
      o_tags = if_given split_comma (rq_tags rq),
      o_categories = if_given split_comma (rq_categories rq),
      o_rating = if_given parseInt (rq_rating rq),
      o_sentiment = rq_sentiment rq,
      o_language = rq_language rq,
      o_limit = Some (parseInt (or_default ''50'' (rq_limit rq))),
      o_offset = Some (parseInt (or_default ''0'' (rq_offset rq))),
      o_sortBy = None\<rparr>"

definition sortOptions :: "string \<Rightarrow> string option \<Rightarrow> sort_spec" where
  "sortOptions sortBy qo =
     (if sortBy = ''relevance'' \<and> truthy_str qo then [(TextScore, Desc), (IndexedAt, Desc)]
      else if sortBy = ''rating'' then [(MetadataRating, Desc), (IndexedAt, Desc)]
      else if sortBy = ''date'' then [(IndexedAt, Desc)]
      else [(IndexedAt, Desc)])"

definition api_search :: "engine \<Rightarrow> search_req \<Rightarrow> store \<Rightarrow> search_response \<times> store" where
  "api_search E rq st =
     (if \<not> truthy_str (rq_q rq) \<and> \<not> truthy_str (rq_businessId rq)
      then (search_failure 400 ''Search query or businessId is required'', st)
      else
        let opts = request_options (rq_contentType rq) rq;
            so = sortOptions (or_default ''relevance'' (rq_sortBy rq)) (rq_q rq) in
        (case search E (rq_q rq) (opts\<lparr>o_sortBy := Some so\<rparr>) st of
           (Inl e, st') \<Rightarrow> (search_failure 500 ''Failed to perform search'', st')
         | (Inr results, st') \<Rightarrow>
             (\<lparr>status = 200, success = True, error = None, data = Some results,
               count' = Some (length results), r_contentType = None, r_query = rq_q rq,
               r_filters = Some opts\<rparr>, st')))"

subsection \<open>GET /api/search/:contentType\<close>

text \<open>
  The options of this handler have no \<^verbatim>\<open>contentType\<close> key; \<^verbatim>\<open>searchByContentType\<close> adds
  the route parameter. \<^verbatim>\<open>sortBy\<close> and the \<^verbatim>\<open>contentType\<close> of the query string are not read.
\<close>

definition api_search_by_type ::
  "engine \<Rightarrow> string \<Rightarrow> search_req \<Rightarrow> store \<Rightarrow> search_response \<times> store" where
  "api_search_by_type E ct rq st =
     (let opts = request_options None rq in
      (case searchByContentType E ct (rq_q rq) opts st of
         (Inl e, st') \<Rightarrow> (search_failure 500 ''Failed to search by content type'', st')
       | (Inr results, st') \<Rightarrow>
           (\<lparr>status = 200, success = True, error = None, data = Some results,
             count' = Some (length results), r_contentType = Some ct, r_query = rq_q rq,
             r_filters = Some opts\<rparr>, st')))"

subsection \<open>POST /api/search/advanced\<close>

text \<open>
  The JSON body, typed: \<^verbatim>\<open>filters\<close> carries the keys \<^verbatim>\<open>search\<close> reads, \<^verbatim>\<open>pagination\<close> and
  \<^verbatim>\<open>sort\<close> are objects whose keys may be missing. (A \<^verbatim>\<open>null\<close> in their place makes the
  handler throw, which is not a body of this type.)
\<close>

record pagination =
  pg_limit :: "js_num option"
  pg_offset :: "js_num option"

record sort_req =
  sr_field :: "string option"
  sr_order :: "string option"

record advanced_body =
  ab_query :: "string option"
  ab_filters :: "options option"
  ab_pagination :: "pagination option"
  ab_sort :: "sort_req option"

record advanced_response = "doc list response" +
  a_pagination :: "(js_num option \<times> js_num option \<times> nat) option"
  a_sort :: "sort_req option"
  a_filters :: "options option"

definition advanced_failure :: "nat \<Rightarrow> string \<Rightarrow> advanced_response" where
  "advanced_failure code msg =
     \<lparr>status = code, success = False, error = Some msg, data = None, count' = None,
      a_pagination = None, a_sort = None, a_filters = None\<rparr>"

definition no_filters :: options where
  "no_filters =
     \<lparr>o_businessId = None, o_franchiseId = None, o_contentType = None, o_tags = None,
      o_categories = None, o_rating = None, o_sentiment = None, o_language = None,
      o_limit = None, o_offset = None, o_sortBy = None\<rparr>"

definition advancedSortOptions :: "sort_req \<Rightarrow> string option \<Rightarrow> sort_spec" where
  "advancedSortOptions srt qo =
     (if sr_field srt = Some ''relevance'' \<and> truthy_str qo
        then [(TextScore, Desc), (IndexedAt, Desc)]
      else if sr_field srt = Some ''rating''
        then [(MetadataRating, if sr_order srt = Some ''asc'' then Asc else Desc), (IndexedAt, Desc)]
      else if sr_field srt = Some ''date''
        then [(IndexedAt, if sr_order srt = Some ''asc'' then Asc else Desc)]
      else [(IndexedAt, Desc)])"

definition api_search_advanced ::
  "engine \<Rightarrow> advanced_body \<Rightarrow> store \<Rightarrow> advanced_response \<times> store" where
  "api_search_advanced E body st =
     (let filters = or_default no_filters (ab_filters body);
          pg = or_default \<lparr>pg_limit = Some (Num 50), pg_offset = Some (Num 0)\<rparr> (ab_pagination body);
          srt = or_default \<lparr>sr_field = Some ''indexedAt'', sr_order = Some ''desc''\<rparr> (ab_sort body);
          searchOptions = filters\<lparr>o_limit := pg_limit pg, o_offset := pg_offset pg\<rparr>;
          so = advancedSortOptions srt (ab_query body) in
      (case search E (ab_query body) (searchOptions\<lparr>o_sortBy := Some so\<rparr>) st of
         (Inl e, st') \<Rightarrow> (advanced_failure 500 ''Failed to perform advanced search'', st')
       | (Inr results, st') \<Rightarrow>
           (\<lparr>status = 200, success = True, error = None, data = Some results,
             count' = Some (length results),
             a_pagination = Some (pg_limit pg, pg_offset pg, length results),
             a_sort = Some srt, a_filters = Some filters\<rparr>, st')))"

subsection \<open>POST /api/search/index\<close>

text \<open>
  The handler passes nine fields of the body to the constructor. The \<^verbatim>\<open>indexedAt\<close> it
  adds inside \<^verbatim>\<open>metadata\<close> is not a path of the schema and is dropped; \<^verbatim>\<open>isActive\<close> and
  \<^verbatim>\<open>indexedAt\<close> of the body are not passed on.
\<close>

definition no_metadata :: metadata where
  "no_metadata = \<lparr>rating = None, sentiment = None, language = None, source = None, author = None\<rparr>"

definition api_index :: "engine \<Rightarrow> int \<Rightarrow> payload \<Rightarrow> store \<Rightarrow> doc response \<times> store" where
  "api_index E now body st =
     (case newSearchIndex now (next_id st)
             \<lparr>p_businessId = p_businessId body, p_franchiseId = p_franchiseId body,
              p_contentType = p_contentType body, p_contentId = p_contentId body,
              p_title = p_title body, p_content = p_content body,
              p_tags = Some (or_default [] (p_tags body)),
              p_categories = Some (or_default [] (p_categories body)),
              p_metadata = Some (or_default no_metadata (p_metadata body)),
              p_isActive = None, p_indexedAt = None\<rparr> of
        None \<Rightarrow> (failure 500 ''Failed to index content'', st)
      | Some searchIndex \<Rightarrow>
          (case save E now searchIndex st of
             (d, None, st') \<Rightarrow>
               (\<lparr>status = 201, success = True, error = None, data = Some d, count' = None\<rparr>, st')
           | (d, Some e, st') \<Rightarrow> (failure 500 ''Failed to index content'', st')))"

subsection \<open>PUT /api/search/index/:id\<close>

definition api_index_update ::
  "engine \<Rightarrow> int \<Rightarrow> nat \<Rightarrow> payload \<Rightarrow> store \<Rightarrow> doc response \<times> store" where
  "api_index_update E now i updateData st =
     (case findByIdAndUpdate E now i (updateData\<lparr>p_indexedAt := Some now\<rparr>) st of
        (Inl e, st') \<Rightarrow> (failure 500 ''Failed to update search index'', st')
      | (Inr None, st') \<Rightarrow> (failure 404 ''Search index not found'', st')
      | (Inr (Some d), st') \<Rightarrow>
          (\<lparr>status = 200, success = True, error = None, data = Some d, count' = None\<rparr>, st'))"

subsection \<open>POST /api/search/index/bulk\<close>

text \<open>The \<^verbatim>\<open>items\<close> key of the body: an array of payloads, or anything else.\<close>

datatype items_field = NotAnArray | Items "payload list"

definition api_index_bulk ::
  "engine \<Rightarrow> int \<Rightarrow> items_field \<Rightarrow> store \<Rightarrow> doc list response \<times> store" where
  "api_index_bulk E now items st =
     (case items of
        NotAnArray \<Rightarrow> (failure 400 ''Items array is required'', st)
      | Items xs \<Rightarrow>
          if length xs = 0 then (failure 400 ''Items array is required'', st)
          else
            (case insertMany E now (map (\<lambda>item. item\<lparr>p_indexedAt := Some now\<rparr>) xs) st of
               (Inl e, st') \<Rightarrow> (failure 500 ''Failed to bulk index content'', st')
             | (Inr result, st') \<Rightarrow>
                 (\<lparr>status = 201, success = True, error = None, data = Some result,
                   count' = Some (length result)\<rparr>, st')))"

subsection \<open>GET /api/search/suggestions\<close>

record suggest_req =
  sq_q :: "string option"
  sq_businessId :: "string option"
  sq_limit :: "string option"

text \<open>
  \<^verbatim>\<open>new mongoose.Types.ObjectId(businessId)\<close>: a new id, equal to no stored one, when the
  parameter is missing; an exception when the string denotes no id.
\<close>

definition newObjectId :: "engine \<Rightarrow> string option \<Rightarrow> clause option" where
  "newObjectId E so =
     (case so of
        None \<Rightarrow> Some BusinessIdFresh
      | Some s \<Rightarrow> if oid_ok E s then Some (BusinessIdIs (ObjectId s)) else None)"

definition api_suggestions ::
  "engine \<Rightarrow> suggest_req \<Rightarrow> store \<Rightarrow> suggestion list response \<times> store" where
  "api_suggestions E rq st =
     (if \<not> truthy_str (sq_q rq) \<or> length (or_default [] (sq_q rq)) < 2
      then (\<lparr>status = 200, success = True, error = None, data = Some [], count' = Some 0\<rparr>, st)
      else
        (case newObjectId E (sq_businessId rq) of
           None \<Rightarrow> (failure 500 ''Failed to fetch search suggestions'', st)
         | Some b \<Rightarrow>
             let q = or_default [] (sq_q rq);
                 lm = parseInt (or_default ''10'' (sq_limit rq));
                 call = Aggregate [Match [b, IsActiveIs True, TitleOrTagsRegex q],
                                   ProjectSuggestion, Limit lm];
                 st' = issue call st in
             if refuses E call then (failure 500 ''Failed to fetch search suggestions'', st')
             else
               (case limit_stage lm
                       (map project_suggestion
                          (match_all E [b, IsActiveIs True, TitleOrTagsRegex q] (docs st))) of
                  None \<Rightarrow> (failure 500 ''Failed to fetch search suggestions'', st')
                | Some suggestions \<Rightarrow>
                    (\<lparr>status = 200, success = True, error = None, data = Some suggestions,
                      count' = Some (length suggestions)\<rparr>, st'))))"

subsection \<open>GET /api/search/tags/popular\<close>

text \<open>The handler hands the \<^verbatim>\<open>businessId\<close> of the query string to the static as it is.\<close>

definition api_popular_tags ::
  "engine \<Rightarrow> search_req \<Rightarrow> store \<Rightarrow> (string \<times> nat) list response \<times> store" where
  "api_popular_tags E rq st =
     (if \<not> truthy_str (rq_businessId rq) then (failure 400 ''BusinessId is required'', st)
      else
        (case getPopularTags E (Str (or_default [] (rq_businessId rq)))
                (Some (parseInt (or_default ''20'' (rq_limit rq)))) st of
           (Inl e, st') \<Rightarrow> (failure 500 ''Failed to fetch popular tags'', st')
         | (Inr popularTags, st') \<Rightarrow>
             (\<lparr>status = 200, success = True, error = None, data = Some popularTags,
               count' = Some (length popularTags)\<rparr>, st')))"

subsection \<open>GET /api/search/high-rated\<close>

definition api_high_rated :: "engine \<Rightarrow> search_req \<Rightarrow> store \<Rightarrow> doc list response \<times> store" where
  "api_high_rated E rq st =
     (if \<not> truthy_str (rq_businessId rq) then (failure 400 ''BusinessId is required'', st)
      else
        (case getContentByRating E (Str (or_default [] (rq_businessId rq)))
                (Some (parseInt (or_default ''4'' (rq_minRating rq))))
                (Some (parseInt (or_default ''20'' (rq_limit rq)))) st of
           (Inl e, st') \<Rightarrow> (failure 500 ''Failed to fetch high-rated content'', st')
         | (Inr highRatedContent, st') \<Rightarrow>
             (\<lparr>status = 200, success = True, error = None, data = Some highRatedContent,
               count' = Some (length highRatedContent)\<rparr>, st')))"

subsection \<open>Routing of GET requests\<close>

text \<open>
  Express tries the routes in the order in which \<^verbatim>\<open>src/index.js\<close> registers them and runs
  the first whose path matches; none of the handlers passes the request on. A
  \<^verbatim>\<open>:name\<close> segment matches any one non-empty segment.
\<close>

datatype seg = Lit string | Param

datatype get_handler =
    Health | Ready | GlobalSearch | SearchByContentType | PopularTags | ContentStats
  | RecentContent | HighRated | Suggestions

definition get_routes :: "(seg list \<times> get_handler) list" where
  "get_routes =
     [([Lit ''health''], Health),
      ([Lit ''ready''], Ready),
      ([Lit ''api'', Lit ''search''], GlobalSearch),
      ([Lit ''api'', Lit ''search'', Param], SearchByContentType),
      ([Lit ''api'', Lit ''search'', Lit ''tags'', Lit ''popular''], PopularTags),
      ([Lit ''api'', Lit ''search'', Lit ''stats''], ContentStats),
      ([Lit ''api'', Lit ''search'', Lit ''recent''], RecentContent),
      ([Lit ''api'', Lit ''search'', Lit ''high-rated''], HighRated),
      ([Lit ''api'', Lit ''search'', Lit ''suggestions''], Suggestions)]"

fun seg_matches :: "seg \<Rightarrow> string \<Rightarrow> bool" where
  "seg_matches (Lit l) s = (s = l)"
| "seg_matches Param s = (s \<noteq> [])"

fun route_in :: "(seg list \<times> get_handler) list \<Rightarrow> string list \<Rightarrow> get_handler option" where
  "route_in [] path = None"
| "route_in ((pat, h) # rs) path =
     (if list_all2 seg_matches pat path then Some h else route_in rs path)"

definition route_get :: "string list \<Rightarrow> get_handler option" where
  "route_get path = route_in get_routes path"

text \<open>
  A GET request as the application serves it: the handler of the first matching route
  runs on the path and the query string. The search handlers, the popular-tags
  handler, the high-rated handler and the suggestions handler are the ones modelled;
  a path that matches no route gets the 404 of the catch-all handler.
\<close>

datatype get_response =
    SearchResponse search_response
  | PopularTagsResponse "(string \<times> nat) list response"
  | ListingResponse "doc list response"
  | SuggestionsResponse "suggestion list response"
  | NotModelled get_handler
  | RouteNotFound

definition http_get :: "engine \<Rightarrow> string list \<Rightarrow> search_req \<Rightarrow> store \<Rightarrow> get_response \<times> store" where
  "http_get E path rq st =
     (case route_get path of
        None \<Rightarrow> (RouteNotFound, st)
      | Some GlobalSearch \<Rightarrow>
          (case api_search E rq st of (r, st') \<Rightarrow> (SearchResponse r, st'))
      | Some SearchByContentType \<Rightarrow>
          (case api_search_by_type E (last path) rq st of (r, st') \<Rightarrow> (SearchResponse r, st'))
      | Some PopularTags \<Rightarrow>
          (case api_popular_tags E rq st of (r, st') \<Rightarrow> (PopularTagsResponse r, st'))
      | Some HighRated \<Rightarrow>
          (case api_high_rated E rq st of (r, st') \<Rightarrow> (ListingResponse r, st'))
      | Some Suggestions \<Rightarrow>
          (case api_suggestions E
                  \<lparr>sq_q = rq_q rq, sq_businessId = rq_businessId rq, sq_limit = rq_limit rq\<rparr> st of
             (r, st') \<Rightarrow> (SuggestionsResponse r, st'))
      | Some h \<Rightarrow> (NotModelled h, st))"

section \<open>Notions the claims are stated with\<close>



section \<open>Example data\<close>

text \<open>
  A collaborator that refuses nothing, whose text index matches a record when the
  query is its title, and small stores, used where a theorem is run on a concrete
  input. The records \<open>doc_fast\<close> and \<open>doc_rated\<close> are as this service writes them, with
  \<^verbatim>\<open>franchiseId\<close> \<^verbatim>\<open>null\<close>; a record \<open>unlinked d\<close> has no \<^verbatim>\<open>franchiseId\<close> field, as another
  writer of the collection may leave it.
\<close>

definition engine0 :: engine where
  "engine0 =
     \<lparr>text_index = (\<lambda>q d. if title d = q then Some 1 else None),
      regex_i = (\<lambda>p s. p = s),
      oid_ok = (\<lambda>s. s \<noteq> []),
      refuses = (\<lambda>c. False)\<rparr>"

definition store0 :: store where
  "store0 = \<lparr>docs = [], next_id = 0, calls = []\<rparr>"

definition meta5 :: metadata where
  "meta5 = \<lparr>rating = Some 5, sentiment = None, language = None, source = None, author = None\<rparr>"

definition payload_fast :: payload where
  "payload_fast =
     \<lparr>p_businessId = Some ''B1'', p_franchiseId = None, p_contentType = Some ''submission'',
      p_contentId = Some ''C1'', p_title = Some ''Great service'', p_content = Some ''...'',
      p_tags = Some [''fast''], p_categories = None, p_metadata = Some meta5,
      p_isActive = None, p_indexedAt = None\<rparr>"

definition doc_fast :: "nat \<Rightarrow> int \<Rightarrow> doc" where
  "doc_fast i t =
     \<lparr>docId = i, businessId = ''B1'', franchiseId = Null, contentType = ''submission'',
      contentId = ''C1'', title = ''Great service'', content = ''...'', tags = [''fast''],
      categories = [], metadata = meta5\<lparr>language := Some ''en''\<rparr>, isActive = True,
      indexedAt = t, createdAt = t, updatedAt = t\<rparr>"

definition store1 :: store where
  "store1 = \<lparr>docs = [doc_fast 0 1000], next_id = 1, calls = []\<rparr>"

definition update0 :: payload where
  "update0 =
     \<lparr>p_businessId = None, p_franchiseId = None, p_contentType = None, p_contentId = None,
      p_title = Some ''Good service'', p_content = None, p_tags = None, p_categories = None,
      p_metadata = None, p_isActive = None, p_indexedAt = Some 5\<rparr>"

definition doc_rated :: "nat \<Rightarrow> rat \<Rightarrow> int \<Rightarrow> doc" where
  "doc_rated i r t =
     \<lparr>docId = i, businessId = ''B1'', franchiseId = Null, contentType = ''submission'',
      contentId = ''C1'', title = ''Great service'', content = ''...'', tags = [''fast''],
      categories = [], metadata = \<lparr>rating = Some r, sentiment = None, language = Some ''en'',
      source = None, author = None\<rparr>, isActive = True,
      indexedAt = t, createdAt = t, updatedAt = t\<rparr>"

definition payload_rated :: "rat \<Rightarrow> payload" where
  "payload_rated r = payload_fast\<lparr>p_metadata := Some (meta5\<lparr>rating := Some r\<rparr>)\<rparr>"

definition unlinked :: "doc \<Rightarrow> doc" where
  "unlinked d = d\<lparr>franchiseId := Missing\<rparr>"

definition store1u :: store where
  "store1u = \<lparr>docs = [unlinked (doc_fast 0 1000)], next_id = 1, calls = []\<rparr>"



definition rq_none :: search_req where
  "rq_none =
     \<lparr>rq_q = None, rq_businessId = None, rq_franchiseId = None, rq_contentType = None,
      rq_tags = None, rq_categories = None, rq_rating = None, rq_sentiment = None,
      rq_language = None, rq_limit = None, rq_offset = None, rq_sortBy = None,
      rq_minRating = None\<rparr>"

definition rq_rating :: search_req where
  "rq_rating = rq_none\<lparr>rq_businessId := Some ''B1'', rq_sortBy := Some ''rating''\<rparr>"


definition rq_min4 :: search_req where
  "rq_min4 = rq_none\<lparr>rq_businessId := Some ''B1'', rq_minRating := Some ''4''\<rparr>"


definition store3 :: store where
  "store3 = \<lparr>docs = [unlinked (doc_fast 0 1000), unlinked ((doc_fast 1 2000)\<lparr>isActive := False\<rparr>)],
              next_id = 2, calls = []\<rparr>"

definition rq_b1 :: search_req where
  "rq_b1 = rq_none\<lparr>rq_businessId := Some ''B1''\<rparr>"

definition body_b1 :: advanced_body where
  "body_b1 =
     \<lparr>ab_query = None, ab_filters = Some (no_filters\<lparr>o_businessId := Some ''B1''\<rparr>),
      ab_pagination = None, ab_sort = None\<rparr>"

definition sq_fast :: suggest_req where
  "sq_fast = \<lparr>sq_q = Some ''fast'', sq_businessId = Some ''B1'', sq_limit = None\<rparr>"

definition store53 :: store where
  "store53 = \<lparr>docs = [doc_rated 0 5 1000, doc_rated 1 3 1000], next_id = 2,
               calls = [InsertMany [doc_rated 0 5 1000, doc_rated 1 3 1000]]\<rparr>"

definition rq_limit_1x :: search_req where
  "rq_limit_1x = rq_none\<lparr>rq_q := Some ''Great service'', rq_limit := Some ''1x''\<rparr>"

definition rq_limit_abc :: search_req where
  "rq_limit_abc = rq_none\<lparr>rq_q := Some ''Great service'', rq_limit := Some ''abc''\<rparr>"

definition rq_a :: search_req where
  "rq_a = rq_none\<lparr>rq_q := Some ''a''\<rparr>"

definition body_empty :: advanced_body where
  "body_empty = \<lparr>ab_query = None, ab_filters = None, ab_pagination = None, ab_sort = None\<rparr>"

lemmas example_defs = engine0_def store0_def store1_def meta5_def payload_fast_def doc_fast_def

section \<open>Properties of the storage model\<close>

subsection \<open>Sorting\<close>

lemma set_insert_sorted: "set (insert_sorted le x xs) = insert x (set xs)"
  by (induction xs) auto

lemma set_sort_by: "set (sort_by le xs) = set xs"
  by (induction xs) (simp_all add: sort_by_def set_insert_sorted)






subsection \<open>Saving\<close>

lemma find_upsert: "List.find (\<lambda>x. docId x = docId d) (upsert d xs) = Some d"
  by (induction xs) auto

lemma save_ok:
  assumes "save E now d st = (d', None, st')"
  shows "d' = pre_save now d \<and> List.find (\<lambda>x. docId x = docId d) (docs st') = Some d'"
proof -
  from assms have d': "d' = pre_save now d"
    and st': "docs st' = upsert (pre_save now d) (docs st)"
    by (auto simp: save_def Let_def issue_def split: if_splits)
  have "docId (pre_save now d) = docId d" by (simp add: pre_save_def)
  with find_upsert [of "pre_save now d" "docs st"] d' st' show ?thesis by simp
qed

lemma tags_pre_save: "tags (pre_save now d) = tags d"
  by (simp add: pre_save_def)

lemma tags_save: "tags (fst (save E now d st)) = tags d"
  by (simp add: save_def Let_def tags_pre_save)

lemma tags_addTag:
  "tags (fst (addTag E now tag d st)) = (if tag \<in> set (tags d) then tags d else tags d @ [tag])"
  by (simp add: addTag_def tags_save)

lemma docId_addTag_arg:
  "docId (if \<not> tag \<in> set (tags d) then d\<lparr>tags := tags d @ [tag]\<rparr> else d) = docId d"
  by simp

lemma addTag_eval:
  "addTag engine0 2000 ''fast'' (doc_fast 0 1000) store1 =
     ((doc_fast 0 1000)\<lparr>updatedAt := 2000, indexedAt := 2000\<rparr>, None,
      \<lparr>docs = [(doc_fast 0 1000)\<lparr>updatedAt := 2000, indexedAt := 2000\<rparr>], next_id = 1,
       calls = [Save ((doc_fast 0 1000)\<lparr>updatedAt := 2000, indexedAt := 2000\<rparr>)]\<rparr>)"
  by (simp add: addTag_def save_def valid_doc_def valid_metadata_def pre_save_def issue_def
      contentTypes_def sentiments_def example_defs Let_def)

subsection \<open>Writes refresh the timestamp\<close>

lemma status_failure: "status (failure code msg :: 'a response) = code"
  by (simp add: failure_def)

lemma create_refreshes:
  assumes "api_index E now body st = (resp, st')" and "status resp = 201"
  shows "\<exists>d. data resp = Some d \<and> indexedAt d = now \<and>
             List.find (\<lambda>x. docId x = docId d) (docs st') = Some d"
proof -
  let ?p = "\<lparr>p_businessId = p_businessId body, p_franchiseId = p_franchiseId body,
              p_contentType = p_contentType body, p_contentId = p_contentId body,
              p_title = p_title body, p_content = p_content body,
              p_tags = Some (or_default [] (p_tags body)),
              p_categories = Some (or_default [] (p_categories body)),
              p_metadata = Some (or_default no_metadata (p_metadata body)),
              p_isActive = None, p_indexedAt = None\<rparr>"
  from assms obtain d0 where c: "newSearchIndex now (next_id st) ?p = Some d0"
    by (cases "newSearchIndex now (next_id st) ?p") (auto simp: api_index_def status_failure)
  obtain d eo st1 where s: "save E now d0 st = (d, eo, st1)" by (cases "save E now d0 st")
  with assms c have eo: "eo = None" and r: "data resp = Some d" and st1: "st1 = st'"
    by (cases eo; auto simp: api_index_def status_failure)+
  from save_ok [of E now d0 st d st'] s eo st1
  have "d = pre_save now d0" and f: "List.find (\<lambda>x. docId x = docId d0) (docs st') = Some d"
    by auto
  then have "indexedAt d = now" and "docId d = docId d0"
    by (simp_all add: pre_save_def)
  with r f show ?thesis by auto
qed

lemma update_refreshes:
  assumes "api_index_update E now i u st = (resp, st')" and "status resp = 200"
  shows "\<exists>d. data resp = Some d \<and> docId d = i \<and> indexedAt d = now \<and>
             List.find (\<lambda>x. docId x = i) (docs st') = Some d"
proof -
  let ?u = "u\<lparr>p_indexedAt := Some now\<rparr>"
  let ?call = "FindByIdAndUpdate i ?u now"
  from assms have nr: "\<not> refuses E ?call"
    by (auto simp: api_index_update_def findByIdAndUpdate_def Let_def status_failure)
  from assms nr obtain d0 where f0: "List.find (\<lambda>d. docId d = i) (docs st) = Some d0"
    by (cases "List.find (\<lambda>d. docId d = i) (docs st)")
       (auto simp: api_index_update_def findByIdAndUpdate_def Let_def status_failure issue_def)
  let ?d = "apply_update now ?u d0"
  from assms nr f0 have r: "data resp = Some ?d" and st': "docs st' = upsert ?d (docs st)"
    by (auto simp: api_index_update_def findByIdAndUpdate_def Let_def issue_def)
  from f0 have "docId d0 = i" by (auto simp: find_Some_iff)
  then have id: "docId ?d = i" by (simp add: apply_update_def)
  have ia: "indexedAt ?d = now" by (simp add: apply_update_def)
  from find_upsert [of ?d "docs st"] id st' have "List.find (\<lambda>x. docId x = i) (docs st') = Some ?d"
    by simp
  with r id ia show ?thesis by blast
qed

lemma indexedAt_newSearchIndex:
  "newSearchIndex now i (p\<lparr>p_indexedAt := Some t\<rparr>) = Some d \<Longrightarrow> indexedAt d = t"
  by (auto simp: newSearchIndex_def split: option.splits)

lemma those_map2_stamped:
  "those (map2 f is (map (\<lambda>item. item\<lparr>p_indexedAt := Some t\<rparr>) xs)) = Some ds \<Longrightarrow>
   (\<And>i p d. f i (p\<lparr>p_indexedAt := Some t\<rparr>) = Some d \<Longrightarrow> indexedAt d = t) \<Longrightarrow>
   \<forall>d \<in> set ds. indexedAt d = t"
proof (induction xs arbitrary: "is" ds)
  case Nil
  then show ?case by simp
next
  case (Cons x xs)
  show ?case
  proof (cases "is")
    case Nil
    with Cons.prems show ?thesis by simp
  next
    case (Cons i is')
    with Cons.prems Cons.IH [of is'] show ?thesis
      by (auto split: option.splits)
  qed
qed

lemma newSearchIndex_fields:
  "newSearchIndex now i p = Some d \<Longrightarrow>
   docId d = i \<and> p_businessId p = Some (businessId d) \<and> p_contentType p = Some (contentType d) \<and>
   p_contentId p = Some (contentId d) \<and> p_title p = Some (title d) \<and>
   p_content p = Some (content d) \<and> tags d = or_default [] (p_tags p) \<and>
   indexedAt d = or_default now (p_indexedAt p)"
  by (auto simp: newSearchIndex_def split: option.splits)

lemma bulk_items:
  "those (map2 (newSearchIndex now) is (map (\<lambda>item. item\<lparr>p_indexedAt := Some now\<rparr>) xs)) = Some ds \<Longrightarrow>
   length is = length xs \<Longrightarrow>
   list_all2 (\<lambda>p d. p_businessId p = Some (businessId d) \<and> p_contentType p = Some (contentType d) \<and>
                p_contentId p = Some (contentId d) \<and> p_title p = Some (title d) \<and>
                p_content p = Some (content d) \<and> tags d = or_default [] (p_tags p) \<and>
                indexedAt d = now) xs ds \<and> map docId ds = is"
proof (induction xs arbitrary: "is" ds)
  case Nil
  then show ?case by simp
next
  case (Cons x xs)
  from Cons.prems(2) obtain i is' where iseq: "is = i # is'" and l: "length is' = length xs"
    by (cases "is") auto
  from Cons.prems(1) obtain d ds' where
    d: "newSearchIndex now i (x\<lparr>p_indexedAt := Some now\<rparr>) = Some d"
    and t: "those (map2 (newSearchIndex now) is' (map (\<lambda>item. item\<lparr>p_indexedAt := Some now\<rparr>) xs)) = Some ds'"
    and ds: "ds = d # ds'"
    unfolding iseq by (auto split: option.splits)
  from newSearchIndex_fields [OF d] Cons.IH [OF t l] show ?case
    unfolding iseq ds by simp
qed

lemma bulk_refreshes:
  assumes "api_index_bulk E now items st = (resp, st')" and "status resp = 201"
  shows "\<exists>xs ds. items = Items xs \<and> data resp = Some ds \<and> length ds = length xs \<and>
              list_all2 (\<lambda>p d. p_businessId p = Some (businessId d) \<and>
                           p_contentType p = Some (contentType d) \<and>
                           p_contentId p = Some (contentId d) \<and> p_title p = Some (title d) \<and>
                           p_content p = Some (content d) \<and> tags d = or_default [] (p_tags p) \<and>
                           indexedAt d = now) xs ds \<and>
              map docId ds = [next_id st ..< next_id st + length xs] \<and>
              (\<forall>d \<in> set ds. indexedAt d = now) \<and>
              docs st' = docs st @ ds"
proof -
  from assms obtain xs where items: "items = Items xs" and ne: "length xs \<noteq> 0"
    by (cases items) (auto simp: api_index_bulk_def status_failure split: if_splits)
  let ?ys = "map (\<lambda>item. item\<lparr>p_indexedAt := Some now\<rparr>) xs"
  from assms items ne obtain ds where im: "insertMany E now ?ys st = (Inr ds, st')"
    and r: "data resp = Some ds"
    by (auto simp: api_index_bulk_def status_failure split: prod.splits sum.splits)
  from im have th: "those (map2 (newSearchIndex now) [next_id st ..< next_id st + length xs] ?ys) = Some ds"
    and d: "docs st' = docs st @ ds"
    by (auto simp: insertMany_def Let_def issue_def split: option.splits if_splits)
  from bulk_items [OF th] have a2: "list_all2 (\<lambda>p d. p_businessId p = Some (businessId d) \<and>
                           p_contentType p = Some (contentType d) \<and>
                           p_contentId p = Some (contentId d) \<and> p_title p = Some (title d) \<and>
                           p_content p = Some (content d) \<and> tags d = or_default [] (p_tags p) \<and>
                           indexedAt d = now) xs ds"
    and ids: "map docId ds = [next_id st ..< next_id st + length xs]" by simp_all
  from a2 have len: "length ds = length xs" by (simp add: list_all2_lengthD)
  from those_map2_stamped [OF th] indexedAt_newSearchIndex
  have "\<forall>d \<in> set ds. indexedAt d = now" by blast
  with items r d a2 ids len show ?thesis by blast
qed

lemma save_refreshes:
  assumes "save E now d st = (d', None, st')"
  shows "indexedAt d' = now \<and> List.find (\<lambda>x. docId x = docId d) (docs st') = Some d'"
  using save_ok [OF assms] by (simp add: pre_save_def)

lemmas model_defs = save_def valid_doc_def valid_metadata_def pre_save_def issue_def
  contentTypes_def sentiments_def newSearchIndex_def new_metadata_def no_metadata_def
  failure_def

lemma create_eval:
  "api_index engine0 1000 payload_fast store0 =
    (\<lparr>status = 201, success = True, error = None, data = Some (doc_fast 0 1000), count' = None\<rparr>,
     \<lparr>docs = [doc_fast 0 1000], next_id = 1, calls = [Save (doc_fast 0 1000)]\<rparr>)"
  by (simp add: api_index_def model_defs example_defs Let_def)

lemma update_eval:
  "api_index_update engine0 2000 0 update0 store1 =
    (\<lparr>status = 200, success = True, error = None,
      data = Some ((doc_fast 0 1000)\<lparr>title := ''Good service'', indexedAt := 2000, updatedAt := 2000\<rparr>),
      count' = None\<rparr>,
     \<lparr>docs = [(doc_fast 0 1000)\<lparr>title := ''Good service'', indexedAt := 2000, updatedAt := 2000\<rparr>],
      next_id = 1,
      calls = [FindByIdAndUpdate 0 (update0\<lparr>p_indexedAt := Some 2000\<rparr>) 2000]\<rparr>)"
  by (simp add: api_index_update_def findByIdAndUpdate_def apply_update_def update0_def
      model_defs example_defs Let_def)

lemma bulk_eval:
  "api_index_bulk engine0 3000 (Items [payload_fast]) store1 =
    (\<lparr>status = 201, success = True, error = None, data = Some [doc_fast 1 3000],
      count' = Some 1\<rparr>,
     \<lparr>docs = [doc_fast 0 1000, doc_fast 1 3000], next_id = 2,
      calls = [InsertMany [doc_fast 1 3000]]\<rparr>)"
  by (simp add: api_index_bulk_def insertMany_def model_defs example_defs Let_def upt_rec)

lemma removeTag_eval:
  "removeTag engine0 2000 ''fast'' (doc_fast 0 1000) store1 =
     ((doc_fast 0 1000)\<lparr>tags := [], updatedAt := 2000, indexedAt := 2000\<rparr>, None,
      \<lparr>docs = [(doc_fast 0 1000)\<lparr>tags := [], updatedAt := 2000, indexedAt := 2000\<rparr>],
       next_id = 1,
       calls = [Save ((doc_fast 0 1000)\<lparr>tags := [], updatedAt := 2000, indexedAt := 2000\<rparr>)]\<rparr>)"
  by (simp add: removeTag_def model_defs example_defs Let_def)

lemma updateContent_eval:
  "updateContent engine0 2000 ''new'' (doc_fast 0 1000) store1 =
     ((doc_fast 0 1000)\<lparr>content := ''new'', updatedAt := 2000, indexedAt := 2000\<rparr>, None,
      \<lparr>docs = [(doc_fast 0 1000)\<lparr>content := ''new'', updatedAt := 2000, indexedAt := 2000\<rparr>],
       next_id = 1,
       calls = [Save ((doc_fast 0 1000)\<lparr>content := ''new'', updatedAt := 2000, indexedAt := 2000\<rparr>)]\<rparr>)"
  by (simp add: updateContent_def model_defs example_defs Let_def)

subsection \<open>Searching\<close>

lemma populate_Inr: "populate path ds = Inr rs \<Longrightarrow> rs = ds"
  by (auto simp: populate_def split: option.splits if_splits)

lemma populate_all_Inr: "populate_all pops ds = Inr rs \<Longrightarrow> rs = ds"
proof (induction pops arbitrary: ds)
  case Nil
  then show ?case by simp
next
  case (Cons p pops)
  then show ?case by (auto split: sum.splits dest: populate_Inr)
qed

lemma cast_filter_active:
  "cast_filter E cs = Some cs' \<Longrightarrow> IsActiveIs True \<in> set cs \<Longrightarrow> IsActiveIs True \<in> set cs'"
  unfolding cast_filter_def
  by (induction cs arbitrary: cs') (auto split: option.splits)

lemma find_docs_Inr:
  assumes "find_docs E cs sp lm sk pops st = (Inr rs, st')"
  shows "\<exists>cs' n k. cast_filter E cs = Some cs' \<and> lm = Num n \<and> sk = Num k \<and> 0 \<le> k \<and>
           rs = find_result E cs' sp n k (docs st)"
  using assms
  by (cases lm; cases sk)
     (auto simp: find_docs_def Let_def split: if_splits option.splits dest: populate_all_Inr)

lemma searchQuery_active: "IsActiveIs True \<in> set (searchQuery q opts)"
  by (simp add: searchQuery_def)

lemma search_Inr:
  assumes "search E q opts st = (Inr rs, st')"
  shows "\<exists>cs n k. IsActiveIs True \<in> set cs \<and>
           rs = find_result E cs
            (or_default [(TextScore, Desc), (IndexedAt, Desc)] (o_sortBy opts)) n k (docs st)"
proof -
  from find_docs_Inr [OF assms [unfolded search_def]] obtain cs' n k where
    c: "cast_filter E (searchQuery q opts) = Some cs'"
    and r: "rs = find_result E cs'
            (or_default [(TextScore, Desc), (IndexedAt, Desc)] (o_sortBy opts)) n k (docs st)"
    by blast
  from c searchQuery_active have "IsActiveIs True \<in> set cs'" by (rule cast_filter_active)
  with r show ?thesis by blast
qed





lemma data_search_failure: "data (search_failure c m) = None"
  by (simp add: search_failure_def)

lemma data_advanced_failure: "data (advanced_failure c m) = None"
  by (simp add: advanced_failure_def)

lemma api_search_data:
  assumes "data (fst (api_search E rq st)) = Some rs"
  shows "\<exists>st'. search E (rq_q rq)
           ((request_options (rq_contentType rq) rq)
              \<lparr>o_sortBy := Some (sortOptions (or_default ''relevance'' (rq_sortBy rq)) (rq_q rq))\<rparr>) st
         = (Inr rs, st')"
  using assms
  by (auto simp: api_search_def Let_def data_search_failure split: if_splits prod.splits sum.splits)

lemma api_search_advanced_data:
  assumes "data (fst (api_search_advanced E body st)) = Some rs"
  shows "\<exists>st'. search E (ab_query body)
           ((or_default no_filters (ab_filters body))
              \<lparr>o_limit := pg_limit (or_default \<lparr>pg_limit = Some (Num 50), pg_offset = Some (Num 0)\<rparr> (ab_pagination body)),
               o_offset := pg_offset (or_default \<lparr>pg_limit = Some (Num 50), pg_offset = Some (Num 0)\<rparr> (ab_pagination body)),
               o_sortBy := Some (advancedSortOptions
                  (or_default \<lparr>sr_field = Some ''indexedAt'', sr_order = Some ''desc''\<rparr> (ab_sort body))
                  (ab_query body))\<rparr>) st
         = (Inr rs, st')"
  using assms
  by (auto simp: api_search_advanced_def Let_def data_advanced_failure split: prod.splits sum.splits)

lemmas parse_defs = parseInt_def stripSign_def stripRadix_def digitValue_def isWhiteSpace_def

lemmas search_defs = api_search_def api_search_by_type_def api_search_advanced_def
  searchByContentType_def search_def searchQuery_def request_options_def sortOptions_def
  advancedSortOptions_def find_docs_def find_result_def match_all_def sort_by_def
  apply_limit_def issue_def search_failure_def advanced_failure_def no_filters_def
  cast_filter_def populate_def schema_ref_def registered_models_def has_value_def
  unlinked_def




subsection \<open>Only active records are read\<close>

lemma set_apply_limit: "set (apply_limit n xs) \<subseteq> set xs"
  by (auto simp: apply_limit_def dest: in_set_takeD)

lemma set_find_result: "set (find_result E cs sp n k ds) \<subseteq> set (match_all E cs ds)"
proof -
  have "set (find_result E cs sp n k ds) \<subseteq>
        set (drop (nat k) (sort_by (sort_le (sort_value E (text_of cs)) sp) (match_all E cs ds)))"
    unfolding find_result_def by (rule set_apply_limit)
  also have "\<dots> \<subseteq> set (sort_by (sort_le (sort_value E (text_of cs)) sp) (match_all E cs ds))"
    by (rule set_drop_subset)
  finally show ?thesis by (simp add: set_sort_by)
qed

lemma match_all_iff:
  "d \<in> set (match_all E cs ds) \<longleftrightarrow> d \<in> set ds \<and> (\<forall>c \<in> set cs. matches E c d)"
  by (auto simp: match_all_def list_all_iff)

lemma find_result_active:
  assumes "IsActiveIs True \<in> set cs" and "d \<in> set (find_result E cs sp n k ds)"
  shows "isActive d"
proof -
  from assms(2) set_find_result have "d \<in> set (match_all E cs ds)" by blast
  with assms(1) have "matches E (IsActiveIs True) d" by (auto simp: match_all_iff)
  then show ?thesis by simp
qed

lemma searchQuery_last: "last (searchQuery q opts) = IsActiveIs True"
  by (simp add: searchQuery_def)

lemma search_active:
  assumes "search E q opts st = (Inr rs, st')" and "d \<in> set rs"
  shows "isActive d"
  using search_Inr [OF assms(1)] assms(2) find_result_active by blast

lemma api_search_by_type_data:
  assumes "data (fst (api_search_by_type E ct rq st)) = Some rs"
  shows "\<exists>st'. search E (rq_q rq) ((request_options None rq)\<lparr>o_contentType := Some ct\<rparr>) st
         = (Inr rs, st')"
  using assms
  by (auto simp: api_search_by_type_def searchByContentType_def Let_def data_search_failure
      split: prod.splits sum.splits)

lemma find_docs_active:
  assumes "fst (find_docs E cs sp lm sk pops st) = Inr rs" and "IsActiveIs True \<in> set cs"
    and "d \<in> set rs"
  shows "isActive d"
proof -
  obtain st' where "find_docs E cs sp lm sk pops st = (Inr rs, st')"
    using assms(1) by (cases "find_docs E cs sp lm sk pops st") auto
  from find_docs_Inr [OF this] obtain cs' n k where
    c: "cast_filter E cs = Some cs'" and r: "rs = find_result E cs' sp n k (docs st)" by blast
  from c assms(2) have "IsActiveIs True \<in> set cs'" by (rule cast_filter_active)
  with r assms(3) find_result_active show ?thesis by blast
qed

lemma match_all_active_only:
  assumes "IsActiveIs True \<in> set cs"
  shows "match_all E cs (filter isActive ds) = match_all E cs ds"
proof -
  have "\<And>d. list_all (\<lambda>c. matches E c d) cs \<Longrightarrow> isActive d"
    using assms by (auto simp: list_all_iff)
  then show ?thesis
    unfolding match_all_def by (auto intro: filter_cong)
qed

lemma popular_tags_active_only:
  "fst (getPopularTags E b lo st) =
   fst (getPopularTags E b lo (st\<lparr>docs := filter isActive (docs st)\<rparr>))"
  by (simp add: getPopularTags_def Let_def match_all_active_only split: option.splits)

lemma content_stats_active_only:
  "fst (getContentStats E b st) =
   fst (getContentStats E b (st\<lparr>docs := filter isActive (docs st)\<rparr>))"
  by (simp add: getContentStats_def Let_def match_all_active_only)

lemma data_failure: "data (failure c m) = None"
  by (simp add: failure_def)

lemma limit_stage_Some: "limit_stage lm rows = Some xs \<Longrightarrow> set xs \<subseteq> set rows"
  by (cases lm) (auto simp: limit_stage_def split: if_splits dest: in_set_takeD)

lemma suggestions_active:
  assumes "data (fst (api_suggestions E sq st)) = Some sgs" and "s \<in> set sgs"
  shows "\<exists>d \<in> set (docs st). isActive d \<and> s = project_suggestion d"
proof (cases "\<not> truthy_str (sq_q sq) \<or> length (or_default [] (sq_q sq)) < 2")
  case True
  with assms show ?thesis by (auto simp: api_suggestions_def)
next
  case False
  with assms(1) obtain bc where bc: "newObjectId E (sq_businessId sq) = Some bc"
    by (cases "newObjectId E (sq_businessId sq)") (auto simp: api_suggestions_def data_failure)
  let ?cs = "[bc, IsActiveIs True, TitleOrTagsRegex (or_default [] (sq_q sq))]"
  let ?rows = "map project_suggestion (match_all E ?cs (docs st))"
  from assms(1) False bc
  have "limit_stage (parseInt (or_default ''10'' (sq_limit sq))) ?rows = Some sgs"
    by (auto simp: api_suggestions_def Let_def data_failure split: if_splits option.splits)
  from limit_stage_Some [OF this] assms(2) obtain d where
    d: "d \<in> set (match_all E ?cs (docs st))" and s: "s = project_suggestion d" by auto
  from d have "d \<in> set (docs st)" and "matches E (IsActiveIs True) d"
    by (simp_all add: match_all_iff)
  with s show ?thesis by auto
qed

lemma search_b1_eval:
  "data (fst (api_search engine0 rq_b1 store3)) = Some [unlinked (doc_fast 0 1000)]"
  by (simp add: search_defs parse_defs rq_b1_def rq_none_def store3_def example_defs Let_def)

lemma by_type_eval:
  "api_search_by_type engine0 ''submission'' rq_none store3 =
     (\<lparr>status = 200, success = True, error = None, data = Some [unlinked (doc_fast 0 1000)],
       count' = Some 1, r_contentType = Some ''submission'', r_query = None,
       r_filters = Some (request_options None rq_none)\<rparr>,
      store3\<lparr>calls := [Find [ContentTypeIs ''submission'', IsActiveIs True]
                            [(TextScore, Desc), (IndexedAt, Desc)] (Num 50) (Num 0)]\<rparr>)"
  by (simp add: search_defs parse_defs rq_none_def store3_def example_defs Let_def)

lemma by_type_b1_eval:
  "data (fst (api_search_by_type engine0 ''submission'' rq_b1 store3)) =
     Some [unlinked (doc_fast 0 1000)]"
  by (simp add: search_defs parse_defs rq_b1_def rq_none_def store3_def example_defs Let_def)

lemma advanced_b1_eval:
  "data (fst (api_search_advanced engine0 body_b1 store3)) = Some [unlinked (doc_fast 0 1000)]"
  by (simp add: search_defs body_b1_def store3_def example_defs Let_def)

lemma recent_eval:
  "fst (getRecentContent engine0 (ObjectId ''B1'') None store3) = Inr [unlinked (doc_fast 0 1000)]"
  by (simp add: getRecentContent_def search_defs store3_def example_defs Let_def)

lemma by_rating_eval:
  "fst (getContentByRating engine0 (ObjectId ''B1'') None None store3) =
     Inr [unlinked (doc_fast 0 1000)]"
  by (simp add: getContentByRating_def search_defs store3_def example_defs Let_def)

lemma suggestions_eval:
  "data (fst (api_suggestions engine0 sq_fast store3)) =
     Some [project_suggestion (unlinked (doc_fast 0 1000))]"
  by (simp add: api_suggestions_def newObjectId_def limit_stage_def sq_fast_def search_defs
      parse_defs store3_def example_defs Let_def)

subsection \<open>The rating listing\<close>

lemma bulk53_eval:
  "api_index_bulk engine0 1000 (Items [payload_rated 5, payload_rated 3]) store0 =
    (\<lparr>status = 201, success = True, error = None,
      data = Some [doc_rated 0 5 1000, doc_rated 1 3 1000], count' = Some 2\<rparr>,
     store53)"
  by (simp add: api_index_bulk_def insertMany_def model_defs example_defs payload_rated_def
      doc_rated_def store53_def Let_def upt_rec)

lemma by_rating_53_eval:
  "getContentByRating engine0 (Str ''B1'') (Some (Num 4)) (Some (Num 20)) store53 =
     (Inl MissingSchemaError,
      store53\<lparr>calls := calls store53 @
         [Find [BusinessIdIs (Str ''B1''), RatingGte (Num 4), IsActiveIs True]
               [(MetadataRating, Desc), (IndexedAt, Desc)] (Num 20) (Num 0)]\<rparr>)"
  by (simp add: getContentByRating_def search_defs store53_def doc_rated_def example_defs Let_def)

lemma by_rating_53_unlinked_eval:
  "fst (getContentByRating engine0 (Str ''B1'') (Some (Num 4)) (Some (Num 20))
          (store53\<lparr>docs := map unlinked (docs store53)\<rparr>)) =
     Inr [unlinked (doc_rated 0 5 1000)]"
  by (simp add: getContentByRating_def search_defs store53_def doc_rated_def example_defs Let_def)

lemma high_rated_handler_eval:
  "api_high_rated engine0 rq_min4 store53 =
     (failure 500 ''Failed to fetch high-rated content'',
      store53\<lparr>calls := calls store53 @
         [Find [BusinessIdIs (Str ''B1''), RatingGte (Num 4), IsActiveIs True]
               [(MetadataRating, Desc), (IndexedAt, Desc)] (Num 20) (Num 0)]\<rparr>)"
proof -
  have p: "parseInt ''4'' = Num 4" "parseInt ''20'' = Num 20" by (simp_all add: parse_defs)
  show ?thesis
    by (simp add: api_high_rated_def rq_min4_def rq_none_def p by_rating_53_eval)
qed

lemma by_type_high_rated_eval:
  "api_search_by_type engine0 ''high-rated'' rq_min4 store53 =
     (\<lparr>status = 200, success = True, error = None, data = Some [],
       count' = Some 0, r_contentType = Some ''high-rated'', r_query = None,
       r_filters = Some (request_options None rq_min4)\<rparr>,
      store53\<lparr>calls := calls store53 @
         [Find [BusinessIdIs (Str ''B1''), ContentTypeIs ''high-rated'', IsActiveIs True]
               [(TextScore, Desc), (IndexedAt, Desc)] (Num 50) (Num 0)]\<rparr>)"
  by (simp add: search_defs parse_defs rq_min4_def rq_none_def store53_def doc_rated_def
      example_defs Let_def)

subsection \<open>Popular tags\<close>

text \<open>
  A string never equals a stored \<^verbatim>\<open>ObjectId\<close>: whatever the store, the engine and the
  limit are, the aggregation has no row when it is handed the business id as a string.
\<close>

lemma match_all_str: "match_all E (BusinessIdIs (Str s) # cs) ds = []"
  by (simp add: match_all_def)

lemma popular_tags_str_empty:
  "fst (getPopularTags E (Str s) lo st) = Inr rows \<Longrightarrow> rows = []"
  by (cases "or_default (Num 20) lo")
     (auto simp: getPopularTags_def Let_def match_all_str unwind_tags_def group_count_def
        sort_count_desc_def sort_by_def limit_stage_def split: if_splits option.splits)

lemmas aggregate_defs = getPopularTags_def popularTagsPipeline_def limit_stage_def
  sort_count_desc_def group_count_def unwind_tags_def match_all_def sort_by_def issue_def

lemma popular_fast_eval:
  "fst (getPopularTags engine0 (ObjectId ''B1'') (Some (Num 20))
          (snd (api_index engine0 1000 payload_fast store0))) =
     Inr [(''fast'', 1)]"
  unfolding create_eval
  by (simp add: aggregate_defs example_defs Let_def)

lemma popular_handler_eval:
  "api_popular_tags engine0 rq_b1 (snd (api_index engine0 1000 payload_fast store0)) =
     (\<lparr>status = 200, success = True, error = None, data = Some [], count' = Some 0\<rparr>,
      \<lparr>docs = [doc_fast 0 1000], next_id = 1,
       calls = [Save (doc_fast 0 1000),
                Aggregate [Match [BusinessIdIs (Str ''B1''), IsActiveIs True], UnwindTags,
                           GroupByTagCount, SortCountDesc, Limit (Num 20)]]\<rparr>)"
proof -
  have p: "parseInt ''20'' = Num 20" by (simp add: parse_defs)
  show ?thesis
    unfolding create_eval
    by (simp add: api_popular_tags_def rq_b1_def rq_none_def p aggregate_defs example_defs Let_def)
qed

subsection \<open>Limit and offset\<close>

lemma find_docs_calls:
  "calls (snd (find_docs E cs sp lm sk pops st)) = calls st @ [Find cs sp lm sk]"
  by (cases lm; cases sk; cases "cast_filter E cs") (simp_all add: find_docs_def Let_def issue_def)

lemma search_calls:
  "\<exists>cs sp. calls (snd (search E q opts st)) =
     calls st @ [Find cs sp (or_default (Num 50) (o_limit opts)) (or_default (Num 0) (o_offset opts))]"
  by (auto simp: search_def find_docs_calls)

lemma status_search_failure: "status (search_failure c m) = c"
  by (simp add: search_failure_def)

lemma api_search_snd:
  "truthy_str (rq_q rq) \<or> truthy_str (rq_businessId rq) \<Longrightarrow>
   snd (api_search E rq st) =
   snd (search E (rq_q rq)
          ((request_options (rq_contentType rq) rq)
             \<lparr>o_sortBy := Some (sortOptions (or_default ''relevance'' (rq_sortBy rq)) (rq_q rq))\<rparr>) st)"
  by (auto simp: api_search_def Let_def split: prod.splits sum.splits)

lemma api_search_status:
  "truthy_str (rq_q rq) \<or> truthy_str (rq_businessId rq) \<Longrightarrow>
   status (fst (api_search E rq st)) = 200 \<or> status (fst (api_search E rq st)) = 500"
  by (auto simp: api_search_def Let_def status_search_failure split: prod.splits sum.splits)

lemma api_search_by_type_snd:
  "snd (api_search_by_type E ct rq st) =
   snd (search E (rq_q rq) ((request_options None rq)\<lparr>o_contentType := Some ct\<rparr>) st)"
  by (auto simp: api_search_by_type_def searchByContentType_def Let_def split: prod.splits sum.splits)

lemma api_search_by_type_status:
  "status (fst (api_search_by_type E ct rq st)) = 200 \<or>
   status (fst (api_search_by_type E ct rq st)) = 500"
  by (auto simp: api_search_by_type_def Let_def status_search_failure split: prod.splits sum.splits)

lemma request_options_limit:
  "o_limit (request_options c rq) = Some (parseInt (or_default ''50'' (rq_limit rq)))"
  "o_offset (request_options c rq) = Some (parseInt (or_default ''0'' (rq_offset rq)))"
  by (simp_all add: request_options_def)

lemma parseInt_1x: "parseInt ''1x'' = Num 1"
  by (simp add: parse_defs)

lemma parseInt_abc: "parseInt ''abc'' = NaN"
  by (simp add: parse_defs)

lemma search_1x_eval:
  "api_search engine0 rq_limit_1x store1u =
     (\<lparr>status = 200, success = True, error = None, data = Some [unlinked (doc_fast 0 1000)],
       count' = Some 1, r_contentType = None, r_query = Some ''Great service'',
       r_filters = Some (request_options None rq_limit_1x)\<rparr>,
      store1u\<lparr>calls := [Find [TextSearch ''Great service'', IsActiveIs True]
                            [(TextScore, Desc), (IndexedAt, Desc)] (Num 1) (Num 0)]\<rparr>)"
  by (simp add: search_defs parse_defs rq_limit_1x_def rq_none_def store1u_def example_defs Let_def)

lemma search_abc_eval:
  "api_search engine0 rq_limit_abc store1u =
     (search_failure 500 ''Failed to perform search'',
      store1u\<lparr>calls := [Find [TextSearch ''Great service'', IsActiveIs True]
                            [(TextScore, Desc), (IndexedAt, Desc)] NaN (Num 0)]\<rparr>)"
  by (simp add: search_defs parse_defs rq_limit_abc_def rq_none_def store1u_def example_defs Let_def)

subsection \<open>Routing\<close>

lemma route_search: "route_get [''api'', ''search''] = Some GlobalSearch"
  by (simp add: route_get_def get_routes_def)

lemma by_type_suggestions_eval:
  "api_search_by_type engine0 ''suggestions'' rq_a store1 =
     (\<lparr>status = 200, success = True, error = None, data = Some [],
       count' = Some 0, r_contentType = Some ''suggestions'', r_query = Some ''a'',
       r_filters = Some (request_options None rq_a)\<rparr>,
      store1\<lparr>calls := [Find [TextSearch ''a'', ContentTypeIs ''suggestions'', IsActiveIs True]
                            [(TextScore, Desc), (IndexedAt, Desc)] (Num 50) (Num 0)]\<rparr>)"
  by (simp add: search_defs parse_defs rq_a_def rq_none_def example_defs Let_def)

lemma advanced_empty_eval:
  "api_search_advanced engine0 body_empty store3 =
     (\<lparr>status = 200, success = True, error = None, data = Some [unlinked (doc_fast 0 1000)],
       count' = Some 1, a_pagination = Some (Some (Num 50), Some (Num 0), 1),
       a_sort = Some \<lparr>sr_field = Some ''indexedAt'', sr_order = Some ''desc''\<rparr>,
       a_filters = Some no_filters\<rparr>,
      store3\<lparr>calls := [Find [IsActiveIs True] [(IndexedAt, Desc)] (Num 50) (Num 0)]\<rparr>)"
  by (simp add: search_defs body_empty_def store3_def example_defs Let_def)

section \<open>The claims\<close>

subsection \<open>C1: a search without query and business id\<close>

text \<open>
  C1 says that every search call without a free-text query and without a business id
  is rejected before any query reaches storage. The check stands in the GET
  /api/search handler only. Below, GET /api/search/submission with an empty query
  string, and POST /api/search/advanced with an empty body, are each answered with
  status 200 and the records found, after a \<^verbatim>\<open>find\<close> has been issued.
\<close>

theorem unguarded_search_counterexample:
  "\<not> truthy_str (rq_q rq_none) \<and> \<not> truthy_str (rq_businessId rq_none) \<and>
   http_get engine0 [''api'', ''search'', ''submission''] rq_none store3 =
     (SearchResponse
        \<lparr>status = 200, success = True, error = None, data = Some [unlinked (doc_fast 0 1000)],
         count' = Some 1, r_contentType = Some ''submission'', r_query = None,
         r_filters = Some (request_options None rq_none)\<rparr>,
      store3\<lparr>calls := [Find [ContentTypeIs ''submission'', IsActiveIs True]
                            [(TextScore, Desc), (IndexedAt, Desc)] (Num 50) (Num 0)]\<rparr>) \<and>
   ab_query body_empty = None \<and> ab_filters body_empty = None \<and>
   api_search_advanced engine0 body_empty store3 =
     (\<lparr>status = 200, success = True, error = None, data = Some [unlinked (doc_fast 0 1000)],
       count' = Some 1, a_pagination = Some (Some (Num 50), Some (Num 0), 1),
       a_sort = Some \<lparr>sr_field = Some ''indexedAt'', sr_order = Some ''desc''\<rparr>,
       a_filters = Some no_filters\<rparr>,
      store3\<lparr>calls := [Find [IsActiveIs True] [(IndexedAt, Desc)] (Num 50) (Num 0)]\<rparr>)"
  by (simp add: http_get_def route_get_def get_routes_def by_type_eval advanced_empty_eval)
     (simp add: rq_none_def body_empty_def)

text \<open>
  C1, as amended. For every GET /api/search call in which both \<^verbatim>\<open>q\<close> and \<^verbatim>\<open>businessId\<close> are
  absent or empty, the handler answers with the client error (status 400,
  \<^verbatim>\<open>'Search query or businessId is required'\<close>) and returns the store as it received
  it: no query is issued to storage.
\<close>

theorem global_search_requires_query_or_business:
  assumes "\<not> truthy_str (rq_q rq)" and "\<not> truthy_str (rq_businessId rq)"
  shows "api_search E rq st = (search_failure 400 ''Search query or businessId is required'', st) \<and>
         http_get E [''api'', ''search''] rq st =
           (SearchResponse (search_failure 400 ''Search query or businessId is required''), st)"
  using assms by (simp add: api_search_def http_get_def route_search)

theorem global_search_requires_query_or_business_witness:
  "\<not> truthy_str (rq_q (rq_none\<lparr>rq_q := Some ''''\<rparr>)) \<and>
   \<not> truthy_str (rq_businessId (rq_none\<lparr>rq_q := Some ''''\<rparr>)) \<and>
   api_search engine0 (rq_none\<lparr>rq_q := Some ''''\<rparr>) store3 =
     (search_failure 400 ''Search query or businessId is required'', store3) \<and>
   status (search_failure 400 ''Search query or businessId is required'') = 400"
  using global_search_requires_query_or_business [of "rq_none\<lparr>rq_q := Some ''''\<rparr>" engine0 store3]
  by (simp add: rq_none_def search_failure_def)

subsection \<open>C2: inactive records are never returned\<close>

text \<open>
  C2. The filter that \<^verbatim>\<open>search\<close> composes always ends with \<^verbatim>\<open>isActive = true\<close>, whatever the
  query and options are. Every record that a search (global, by content type,
  advanced), the recent listing and the rating listing return is active. The popular
  tags and the content statistics are the same as on the store with its inactive
  records removed. Every suggestion returned is the projection of an active record.
\<close>

theorem results_are_active:
  "last (searchQuery q opts) = IsActiveIs True \<and>
   (data (fst (api_search E rq st)) = Some rs1 \<longrightarrow> (\<forall>d \<in> set rs1. isActive d)) \<and>
   (data (fst (api_search_by_type E ct rq st)) = Some rs2 \<longrightarrow> (\<forall>d \<in> set rs2. isActive d)) \<and>
   (data (fst (api_search_advanced E body st)) = Some rs3 \<longrightarrow> (\<forall>d \<in> set rs3. isActive d)) \<and>
   (fst (getRecentContent E b lo st) = Inr rs4 \<longrightarrow> (\<forall>d \<in> set rs4. isActive d)) \<and>
   (fst (getContentByRating E b mo lo st) = Inr rs5 \<longrightarrow> (\<forall>d \<in> set rs5. isActive d)) \<and>
   fst (getPopularTags E b lo st) =
     fst (getPopularTags E b lo (st\<lparr>docs := filter isActive (docs st)\<rparr>)) \<and>
   fst (getContentStats E b st) =
     fst (getContentStats E b (st\<lparr>docs := filter isActive (docs st)\<rparr>)) \<and>
   (data (fst (api_suggestions E sq st)) = Some sgs \<longrightarrow>
      (\<forall>s \<in> set sgs. \<exists>d \<in> set (docs st). isActive d \<and> s = project_suggestion d))"
proof (intro conjI impI ballI)
  show "last (searchQuery q opts) = IsActiveIs True" by (rule searchQuery_last)
next
  fix d assume "data (fst (api_search E rq st)) = Some rs1" and "d \<in> set rs1"
  with api_search_data search_active show "isActive d" by blast
next
  fix d assume "data (fst (api_search_by_type E ct rq st)) = Some rs2" and "d \<in> set rs2"
  with api_search_by_type_data search_active show "isActive d" by blast
next
  fix d assume "data (fst (api_search_advanced E body st)) = Some rs3" and "d \<in> set rs3"
  with api_search_advanced_data search_active show "isActive d" by blast
next
  fix d assume "fst (getRecentContent E b lo st) = Inr rs4" and "d \<in> set rs4"
  then show "isActive d"
    unfolding getRecentContent_def using find_docs_active [of E "[BusinessIdIs b, IsActiveIs True]"]
    by fastforce
next
  fix d assume "fst (getContentByRating E b mo lo st) = Inr rs5" and "d \<in> set rs5"
  then show "isActive d"
    unfolding getContentByRating_def
    using find_docs_active [of E "[BusinessIdIs b, RatingGte (or_default (Num 4) mo), IsActiveIs True]"]
    by fastforce
next
  show "fst (getPopularTags E b lo st) =
     fst (getPopularTags E b lo (st\<lparr>docs := filter isActive (docs st)\<rparr>))"
    by (rule popular_tags_active_only)
next
  show "fst (getContentStats E b st) =
     fst (getContentStats E b (st\<lparr>docs := filter isActive (docs st)\<rparr>))"
    by (rule content_stats_active_only)
next
  fix s assume "data (fst (api_suggestions E sq st)) = Some sgs" and "s \<in> set sgs"
  then show "\<exists>d \<in> set (docs st). isActive d \<and> s = project_suggestion d"
    by (rule suggestions_active)
qed

theorem results_are_active_witness:
  "data (fst (api_search engine0 rq_b1 store3)) = Some [unlinked (doc_fast 0 1000)] \<and>
   data (fst (api_search_by_type engine0 ''submission'' rq_b1 store3)) =
     Some [unlinked (doc_fast 0 1000)] \<and>
   data (fst (api_search_advanced engine0 body_b1 store3)) = Some [unlinked (doc_fast 0 1000)] \<and>
   fst (getRecentContent engine0 (ObjectId ''B1'') None store3) =
     Inr [unlinked (doc_fast 0 1000)] \<and>
   fst (getContentByRating engine0 (ObjectId ''B1'') None None store3) =
     Inr [unlinked (doc_fast 0 1000)] \<and>
   data (fst (api_suggestions engine0 sq_fast store3)) =
     Some [project_suggestion (unlinked (doc_fast 0 1000))] \<and>
   docs store3 =
     [unlinked (doc_fast 0 1000), unlinked ((doc_fast 1 2000)\<lparr>isActive := False\<rparr>)] \<and>
   isActive (unlinked (doc_fast 0 1000)) \<and>
   fst (getPopularTags engine0 (ObjectId ''B1'') None store3) =
     fst (getPopularTags engine0 (ObjectId ''B1'') None
            (store3\<lparr>docs := [unlinked (doc_fast 0 1000)]\<rparr>)) \<and>
   fst (getContentStats engine0 (ObjectId ''B1'') store3) =
     fst (getContentStats engine0 (ObjectId ''B1'')
            (store3\<lparr>docs := [unlinked (doc_fast 0 1000)]\<rparr>))"
proof -
  have f: "filter isActive (docs store3) = [unlinked (doc_fast 0 1000)]"
    by (simp add: store3_def doc_fast_def unlinked_def)
  from results_are_active [of _ _ engine0 rq_b1 store3 "[unlinked (doc_fast 0 1000)]"
      "''submission''" "[unlinked (doc_fast 0 1000)]" body_b1 "[unlinked (doc_fast 0 1000)]"
      "ObjectId ''B1''" None "[unlinked (doc_fast 0 1000)]" None
      "[unlinked (doc_fast 0 1000)]" sq_fast "[project_suggestion (unlinked (doc_fast 0 1000))]"]
  have "isActive (unlinked (doc_fast 0 1000)) \<and>
     fst (getPopularTags engine0 (ObjectId ''B1'') None store3) =
       fst (getPopularTags engine0 (ObjectId ''B1'') None
              (store3\<lparr>docs := [unlinked (doc_fast 0 1000)]\<rparr>)) \<and>
     fst (getContentStats engine0 (ObjectId ''B1'') store3) =
       fst (getContentStats engine0 (ObjectId ''B1'')
              (store3\<lparr>docs := [unlinked (doc_fast 0 1000)]\<rparr>))"
    using search_b1_eval by (simp add: f)
  then show ?thesis
    using search_b1_eval advanced_b1_eval recent_eval by_rating_eval suggestions_eval
    by (simp add: by_type_b1_eval) (simp add: store3_def)
qed

subsection \<open>C3: sorting by rating\<close>




subsection \<open>C4: limit and offset\<close>

text \<open>
  C4 says that a malformed \<^verbatim>\<open>limit\<close> or \<^verbatim>\<open>offset\<close> makes the call fail with a validation
  error instead of reaching the storage query. No handler validates them: \<^verbatim>\<open>parseInt\<close>
  reads what digits there are. Below, \<^verbatim>\<open>limit=1x\<close> is served as limit 1 with status 200,
  and \<^verbatim>\<open>limit=abc\<close> reaches the storage query as \<^verbatim>\<open>NaN\<close>; neither call is answered with
  status 400.
\<close>

theorem malformed_limit_counterexample:
  "rq_limit rq_limit_1x = Some ''1x'' \<and>
   status (fst (api_search engine0 rq_limit_1x store1u)) = 200 \<and>
   data (fst (api_search engine0 rq_limit_1x store1u)) = Some [unlinked (doc_fast 0 1000)] \<and>
   calls (snd (api_search engine0 rq_limit_1x store1u)) =
     [Find [TextSearch ''Great service'', IsActiveIs True]
        [(TextScore, Desc), (IndexedAt, Desc)] (Num 1) (Num 0)] \<and>
   rq_limit rq_limit_abc = Some ''abc'' \<and>
   status (fst (api_search engine0 rq_limit_abc store1u)) \<noteq> 400 \<and>
   calls (snd (api_search engine0 rq_limit_abc store1u)) =
     [Find [TextSearch ''Great service'', IsActiveIs True]
        [(TextScore, Desc), (IndexedAt, Desc)] NaN (Num 0)]"
  unfolding search_1x_eval search_abc_eval
  by (simp add: rq_limit_1x_def rq_limit_abc_def search_failure_def store1u_def)

text \<open>
  C4, as amended. For every GET /api/search call that carries a query or a business
  id, and for every GET /api/search/:contentType call, \<^verbatim>\<open>limit\<close> and \<^verbatim>\<open>offset\<close> are read with
  \<^verbatim>\<open>parseInt\<close> (of \<^verbatim>\<open>50\<close> and \<^verbatim>\<open>0\<close> when missing) and handed to storage as they come out,
  \<^verbatim>\<open>NaN\<close> included: the handler issues exactly one \<^verbatim>\<open>find\<close>, whose limit and skip are those
  two values, and its status is 200 or 500, never a client error.
\<close>

theorem limit_offset_passed_through:
  "(truthy_str (rq_q rq) \<or> truthy_str (rq_businessId rq) \<longrightarrow>
      (\<exists>cs sp. calls (snd (api_search E rq st)) =
          calls st @ [Find cs sp (parseInt (or_default ''50'' (rq_limit rq)))
                                 (parseInt (or_default ''0'' (rq_offset rq)))]) \<and>
      (status (fst (api_search E rq st)) = 200 \<or> status (fst (api_search E rq st)) = 500)) \<and>
   (\<exists>cs sp. calls (snd (api_search_by_type E ct rq st)) =
          calls st @ [Find cs sp (parseInt (or_default ''50'' (rq_limit rq)))
                                 (parseInt (or_default ''0'' (rq_offset rq)))]) \<and>
   (status (fst (api_search_by_type E ct rq st)) = 200 \<or>
    status (fst (api_search_by_type E ct rq st)) = 500)"
proof (intro conjI impI)
  assume g: "truthy_str (rq_q rq) \<or> truthy_str (rq_businessId rq)"
  let ?o = "(request_options (rq_contentType rq) rq)
             \<lparr>o_sortBy := Some (sortOptions (or_default ''relevance'' (rq_sortBy rq)) (rq_q rq))\<rparr>"
  from search_calls [of E "rq_q rq" ?o st]
  show "\<exists>cs sp. calls (snd (api_search E rq st)) =
          calls st @ [Find cs sp (parseInt (or_default ''50'' (rq_limit rq)))
                                 (parseInt (or_default ''0'' (rq_offset rq)))]"
    by (simp add: api_search_snd [OF g] request_options_limit)
  from g show "status (fst (api_search E rq st)) = 200 \<or> status (fst (api_search E rq st)) = 500"
    by (rule api_search_status)
next
  let ?o = "(request_options None rq)\<lparr>o_contentType := Some ct\<rparr>"
  from search_calls [of E "rq_q rq" ?o st]
  show "\<exists>cs sp. calls (snd (api_search_by_type E ct rq st)) =
          calls st @ [Find cs sp (parseInt (or_default ''50'' (rq_limit rq)))
                                 (parseInt (or_default ''0'' (rq_offset rq)))]"
    by (simp add: api_search_by_type_snd request_options_limit)
  show "status (fst (api_search_by_type E ct rq st)) = 200 \<or>
    status (fst (api_search_by_type E ct rq st)) = 500"
    by (rule api_search_by_type_status)
qed

theorem limit_offset_passed_through_witness:
  "truthy_str (rq_q rq_limit_1x) \<and>
   calls (snd (api_search engine0 rq_limit_1x store1u)) =
     calls store1u @ [Find [TextSearch ''Great service'', IsActiveIs True]
        [(TextScore, Desc), (IndexedAt, Desc)] (Num 1) (Num 0)] \<and>
   parseInt (or_default ''50'' (rq_limit rq_limit_1x)) = Num 1 \<and>
   parseInt (or_default ''0'' (rq_offset rq_limit_1x)) = Num 0 \<and>
   status (fst (api_search engine0 rq_limit_1x store1u)) = 200"
proof -
  have t: "truthy_str (rq_q rq_limit_1x)" by (simp add: rq_limit_1x_def)
  have p: "parseInt (or_default ''50'' (rq_limit rq_limit_1x)) = Num 1"
    "parseInt (or_default ''0'' (rq_offset rq_limit_1x)) = Num 0"
    by (simp_all add: rq_limit_1x_def rq_none_def parse_defs)
  from limit_offset_passed_through [of rq_limit_1x engine0 store1u] t
  obtain cs sp where "calls (snd (api_search engine0 rq_limit_1x store1u)) =
     calls store1u @ [Find cs sp (parseInt (or_default ''50'' (rq_limit rq_limit_1x)))
                                 (parseInt (or_default ''0'' (rq_offset rq_limit_1x)))]"
    by blast
  with t p show ?thesis
    unfolding search_1x_eval by (simp add: store1u_def)
qed

subsection \<open>C5: bulk indexing rejects an empty list and a non-list\<close>

text \<open>
  C5. For every bulk-index call whose \<^verbatim>\<open>items\<close> is the empty list or not a list at all,
  the handler answers with the client error (status 400, \<^verbatim>\<open>'Items array is required'\<close>)
  and returns the store as it received it: no call is issued to storage, so the
  indexed record set is unchanged.
\<close>

theorem bulk_rejects_empty_or_non_list:
  assumes "items = NotAnArray \<or> items = Items []"
  shows "api_index_bulk E now items st = (failure 400 ''Items array is required'', st)"
  using assms by (auto simp: api_index_bulk_def)

theorem bulk_rejects_empty_or_non_list_witness:
  "(Items [] = NotAnArray \<or> Items [] = Items []) \<and>
   api_index_bulk engine0 1000 (Items []) store1 =
     (failure 400 ''Items array is required'', store1)"
  using bulk_rejects_empty_or_non_list [of "Items []" engine0 1000 store1] by simp

subsection \<open>C6: every write refreshes \<open>indexedAt\<close>\<close>

text \<open>
  C6. Every write of a content record sets its \<^verbatim>\<open>indexedAt\<close> to the current time: a
  create that answers 201 returns and stores a record stamped \<open>now\<close>; an update that
  answers 200 returns and stores the record with the given id stamped \<open>now\<close>, whatever
  \<^verbatim>\<open>indexedAt\<close> the body carried; a bulk insert that answers 201 was given a list of
  items and appends to the store one record for each item, in order, under fresh ids:
  the record carries the item's \<^verbatim>\<open>businessId\<close>, \<^verbatim>\<open>contentType\<close>, \<^verbatim>\<open>contentId\<close>, \<^verbatim>\<open>title\<close>, \<^verbatim>\<open>content\<close>
  and tags and is stamped \<open>now\<close>, whatever \<^verbatim>\<open>indexedAt\<close> the item carried; and a successful \<^verbatim>\<open>addTag\<close>, \<^verbatim>\<open>removeTag\<close> or \<^verbatim>\<open>updateContent\<close> leaves
  the record, in memory and in the store, stamped \<open>now\<close>.
\<close>

theorem writes_refresh_indexedAt:
  "(api_index E now body st = (resp, st') \<longrightarrow> status resp = 201 \<longrightarrow>
      (\<exists>d. data resp = Some d \<and> indexedAt d = now \<and>
           List.find (\<lambda>x. docId x = docId d) (docs st') = Some d)) \<and>
   (api_index_update E now i u st = (uresp, ust) \<longrightarrow> status uresp = 200 \<longrightarrow>
      (\<exists>d. data uresp = Some d \<and> docId d = i \<and> indexedAt d = now \<and>
           List.find (\<lambda>x. docId x = i) (docs ust) = Some d)) \<and>
   (api_index_bulk E now items st = (bresp, bst) \<longrightarrow> status bresp = 201 \<longrightarrow>
      (\<exists>xs ds. items = Items xs \<and> data bresp = Some ds \<and> length ds = length xs \<and>
            list_all2 (\<lambda>p d. p_businessId p = Some (businessId d) \<and>
                         p_contentType p = Some (contentType d) \<and>
                         p_contentId p = Some (contentId d) \<and> p_title p = Some (title d) \<and>
                         p_content p = Some (content d) \<and> tags d = or_default [] (p_tags p) \<and>
                         indexedAt d = now) xs ds \<and>
            map docId ds = [next_id st ..< next_id st + length xs] \<and>
            (\<forall>d \<in> set ds. indexedAt d = now) \<and>
            docs bst = docs st @ ds)) \<and>
   (addTag E now tag d st = (d1, None, st1) \<longrightarrow>
      indexedAt d1 = now \<and> List.find (\<lambda>x. docId x = docId d) (docs st1) = Some d1) \<and>
   (removeTag E now tag d st = (d2, None, st2) \<longrightarrow>
      indexedAt d2 = now \<and> List.find (\<lambda>x. docId x = docId d) (docs st2) = Some d2) \<and>
   (updateContent E now newContent d st = (d3, None, st3) \<longrightarrow>
      indexedAt d3 = now \<and> List.find (\<lambda>x. docId x = docId d) (docs st3) = Some d3)"
proof (intro conjI impI)
  assume "api_index E now body st = (resp, st')" and "status resp = 201"
  then show "\<exists>d. data resp = Some d \<and> indexedAt d = now \<and>
      List.find (\<lambda>x. docId x = docId d) (docs st') = Some d"
    by (rule create_refreshes)
next
  assume "api_index_update E now i u st = (uresp, ust)" and "status uresp = 200"
  then show "\<exists>d. data uresp = Some d \<and> docId d = i \<and> indexedAt d = now \<and>
      List.find (\<lambda>x. docId x = i) (docs ust) = Some d"
    by (rule update_refreshes)
next
  assume "api_index_bulk E now items st = (bresp, bst)" and "status bresp = 201"
  then show "\<exists>xs ds. items = Items xs \<and> data bresp = Some ds \<and> length ds = length xs \<and>
            list_all2 (\<lambda>p d. p_businessId p = Some (businessId d) \<and>
                         p_contentType p = Some (contentType d) \<and>
                         p_contentId p = Some (contentId d) \<and> p_title p = Some (title d) \<and>
                         p_content p = Some (content d) \<and> tags d = or_default [] (p_tags p) \<and>
                         indexedAt d = now) xs ds \<and>
            map docId ds = [next_id st ..< next_id st + length xs] \<and>
            (\<forall>d \<in> set ds. indexedAt d = now) \<and>
            docs bst = docs st @ ds"
    by (rule bulk_refreshes)
next
  assume a: "addTag E now tag d st = (d1, None, st1)"
  from save_refreshes [OF a [unfolded addTag_def]] docId_addTag_arg [of tag d]
  show "indexedAt d1 = now" and "List.find (\<lambda>x. docId x = docId d) (docs st1) = Some d1"
    by simp_all
next
  assume a: "removeTag E now tag d st = (d2, None, st2)"
  from save_refreshes [OF a [unfolded removeTag_def]]
  show "indexedAt d2 = now" and "List.find (\<lambda>x. docId x = docId d) (docs st2) = Some d2"
    by simp_all
next
  assume a: "updateContent E now newContent d st = (d3, None, st3)"
  from save_refreshes [OF a [unfolded updateContent_def]]
  show "indexedAt d3 = now" and "List.find (\<lambda>x. docId x = docId d) (docs st3) = Some d3"
    by simp_all
qed

theorem writes_refresh_indexedAt_witness:
  "status (fst (api_index engine0 1000 payload_fast store0)) = 201 \<and>
   (\<exists>d. data (fst (api_index engine0 1000 payload_fast store0)) = Some d \<and> indexedAt d = 1000 \<and>
        List.find (\<lambda>x. docId x = docId d)
          (docs (snd (api_index engine0 1000 payload_fast store0))) = Some d) \<and>
   p_indexedAt update0 = Some 5 \<and>
   status (fst (api_index_update engine0 2000 0 update0 store1)) = 200 \<and>
   (\<exists>d. data (fst (api_index_update engine0 2000 0 update0 store1)) = Some d \<and> docId d = 0 \<and>
        indexedAt d = 2000 \<and>
        List.find (\<lambda>x. docId x = 0)
          (docs (snd (api_index_update engine0 2000 0 update0 store1))) = Some d) \<and>
   status (fst (api_index_bulk engine0 3000 (Items [payload_fast]) store1)) = 201 \<and>
   p_indexedAt payload_fast = None \<and>
   (\<exists>ds. data (fst (api_index_bulk engine0 3000 (Items [payload_fast]) store1)) = Some ds \<and>
         length ds = length [payload_fast] \<and>
         list_all (\<lambda>d. indexedAt d = 3000 \<and> title d = ''Great service'' \<and>
                        businessId d = ''B1'') ds \<and>
         map docId ds = [1] \<and>
         docs (snd (api_index_bulk engine0 3000 (Items [payload_fast]) store1)) = docs store1 @ ds) \<and>
   fst (snd (addTag engine0 2000 ''fast'' (doc_fast 0 1000) store1)) = None \<and>
   indexedAt (fst (addTag engine0 2000 ''fast'' (doc_fast 0 1000) store1)) = 2000 \<and>
   fst (snd (removeTag engine0 2000 ''fast'' (doc_fast 0 1000) store1)) = None \<and>
   indexedAt (fst (removeTag engine0 2000 ''fast'' (doc_fast 0 1000) store1)) = 2000 \<and>
   fst (snd (updateContent engine0 2000 ''new'' (doc_fast 0 1000) store1)) = None \<and>
   indexedAt (fst (updateContent engine0 2000 ''new'' (doc_fast 0 1000) store1)) = 2000"
proof -
  let ?c = "api_index engine0 1000 payload_fast store0"
  let ?u = "api_index_update engine0 2000 0 update0 store1"
  let ?b = "api_index_bulk engine0 3000 (Items [payload_fast]) store1"
  let ?a = "addTag engine0 2000 ''fast'' (doc_fast 0 1000) store1"
  let ?r = "removeTag engine0 2000 ''fast'' (doc_fast 0 1000) store1"
  let ?n = "updateContent engine0 2000 ''new'' (doc_fast 0 1000) store1"
  have hc: "?c = (fst ?c, snd ?c)" "status (fst ?c) = 201" by (simp_all add: create_eval)
  have hu: "?u = (fst ?u, snd ?u)" "status (fst ?u) = 200" by (simp_all add: update_eval)
  have hb: "?b = (fst ?b, snd ?b)" "status (fst ?b) = 201" by (simp_all add: bulk_eval)
  have ha: "?a = (fst ?a, None, snd (snd ?a))" by (simp add: addTag_eval)
  have hr: "?r = (fst ?r, None, snd (snd ?r))" by (simp add: removeTag_eval)
  have hn: "?n = (fst ?n, None, snd (snd ?n))" by (simp add: updateContent_eval)
  note w = writes_refresh_indexedAt [of engine0 1000 payload_fast store0 "fst ?c" "snd ?c"]
  note x = writes_refresh_indexedAt [of engine0 2000 _ store1 _ _ 0 update0 "fst ?u" "snd ?u"
      _ _ _ "''fast''" "doc_fast 0 1000" "fst ?a" "snd (snd ?a)" "fst ?r" "snd (snd ?r)"
      "''new''" "fst ?n" "snd (snd ?n)"]
  note y = writes_refresh_indexedAt [of engine0 3000 _ store1 _ _ _ _ _ _
      "Items [payload_fast]" "fst ?b" "snd ?b"]
  from w hc have 1: "\<exists>d. data (fst ?c) = Some d \<and> indexedAt d = 1000 \<and>
        List.find (\<lambda>x. docId x = docId d) (docs (snd ?c)) = Some d" by blast
  from x hu have 2: "\<exists>d. data (fst ?u) = Some d \<and> docId d = 0 \<and> indexedAt d = 2000 \<and>
        List.find (\<lambda>x. docId x = 0) (docs (snd ?u)) = Some d" by blast
  note yb = y [THEN conjunct2, THEN conjunct2, THEN conjunct1, rule_format, OF hb]
  from yb obtain xs ds where b3: "Items [payload_fast] = Items xs" "data (fst ?b) = Some ds"
    "length ds = length xs"
    "list_all2 (\<lambda>p d. p_businessId p = Some (businessId d) \<and>
                         p_contentType p = Some (contentType d) \<and>
                         p_contentId p = Some (contentId d) \<and> p_title p = Some (title d) \<and>
                         p_content p = Some (content d) \<and> tags d = or_default [] (p_tags p) \<and>
                         indexedAt d = 3000) xs ds"
    "map docId ds = [next_id store1 ..< next_id store1 + length xs]"
    "docs (snd ?b) = docs store1 @ ds" by (elim exE conjE)
  from b3(1) have xs: "xs = [payload_fast]" by simp
  from b3(3,4) obtain d0 where ds: "ds = [d0]" and d0: "indexedAt d0 = 3000"
    "p_title payload_fast = Some (title d0)" "p_businessId payload_fast = Some (businessId d0)"
    unfolding xs by (cases ds) auto
  from d0 have d0': "title d0 = ''Great service''" "businessId d0 = ''B1''"
    by (simp_all add: payload_fast_def)
  from b3(5) have ids: "map docId ds = [1]" unfolding xs by (simp add: store1_def)
  from b3(2,6) ds d0 d0' ids have 3: "\<exists>ds. data (fst ?b) = Some ds \<and>
         length ds = length [payload_fast] \<and>
         list_all (\<lambda>d. indexedAt d = 3000 \<and> title d = ''Great service'' \<and>
                        businessId d = ''B1'') ds \<and>
         map docId ds = [1] \<and>
         docs (snd ?b) = docs store1 @ ds" by auto
  from x ha have 4: "indexedAt (fst ?a) = 2000" by blast
  from x hr have 5: "indexedAt (fst ?r) = 2000" by blast
  from x hn have 6: "indexedAt (fst ?n) = 2000" by blast
  have 7: "p_indexedAt update0 = Some 5" "p_indexedAt payload_fast = None"
    by (simp_all add: update0_def payload_fast_def)
  from 1 2 3 4 5 6 7 hc(2) hu(2) hb(2) ha hr hn show ?thesis
    by (simp add: prod_eq_iff)
qed

subsection \<open>C7: adding a tag is idempotent\<close>

text \<open>
  C7. \<^verbatim>\<open>addTag\<close> is idempotent on the tag sequence: when the tag is already present the
  sequence of the record is unchanged (no duplicate is appended); applying \<^verbatim>\<open>addTag\<close>
  a second time with the same tag (at any later time, on any store) leaves the
  sequence as the first application left it; and when the save succeeds, the stored
  record carries that same sequence.
\<close>

theorem addTag_idempotent:
  "(tag \<in> set (tags d) \<longrightarrow> tags (fst (addTag E now tag d st)) = tags d) \<and>
   tags (fst (addTag E now' tag (fst (addTag E now tag d st)) st')) =
     tags (fst (addTag E now tag d st)) \<and>
   (addTag E now tag d st = (d1, None, st1) \<longrightarrow>
      map_option tags (List.find (\<lambda>x. docId x = docId d) (docs st1)) = Some (tags d1))"
proof (intro conjI impI)
  assume "addTag E now tag d st = (d1, None, st1)"
  then have "List.find (\<lambda>x. docId x = docId d) (docs st1) = Some d1"
    unfolding addTag_def using save_ok docId_addTag_arg by metis
  then show "map_option tags (List.find (\<lambda>x. docId x = docId d) (docs st1)) = Some (tags d1)"
    by simp
qed (simp_all add: tags_addTag)

theorem addTag_idempotent_witness:
  "''fast'' \<in> set (tags (doc_fast 0 1000)) \<and>
   addTag engine0 2000 ''fast'' (doc_fast 0 1000) store1 =
     ((doc_fast 0 1000)\<lparr>updatedAt := 2000, indexedAt := 2000\<rparr>, None,
      \<lparr>docs = [(doc_fast 0 1000)\<lparr>updatedAt := 2000, indexedAt := 2000\<rparr>], next_id = 1,
       calls = [Save ((doc_fast 0 1000)\<lparr>updatedAt := 2000, indexedAt := 2000\<rparr>)]\<rparr>) \<and>
   tags (fst (addTag engine0 2000 ''fast'' (doc_fast 0 1000) store1)) = [''fast''] \<and>
   map_option tags (List.find (\<lambda>x. docId x = 0)
      [(doc_fast 0 1000)\<lparr>updatedAt := 2000, indexedAt := 2000\<rparr>]) = Some [''fast'']"
  using addTag_idempotent [of "''fast''" "doc_fast 0 1000" engine0 2000 store1 2000 store1
      "(doc_fast 0 1000)\<lparr>updatedAt := 2000, indexedAt := 2000\<rparr>"
      "\<lparr>docs = [(doc_fast 0 1000)\<lparr>updatedAt := 2000, indexedAt := 2000\<rparr>], next_id = 1,
       calls = [Save ((doc_fast 0 1000)\<lparr>updatedAt := 2000, indexedAt := 2000\<rparr>)]\<rparr>"]
    addTag_eval
  by (simp add: doc_fast_def)

subsection \<open>C8: popular tags\<close>

text \<open>
  C8. After a record tagged "fast" has been indexed for business B1, the popular-tags
  result for B1 should contain "fast" with count at least 1. The static
  \<^verbatim>\<open>getPopularTags\<close> puts the business id it is handed into the \<^verbatim>\<open>$match\<close> of an aggregation
  as it is, and its only caller, the handler of GET /api/search/tags/popular, hands it
  the string of the query string; the stored \<^verbatim>\<open>businessId\<close> is an \<^verbatim>\<open>ObjectId\<close>, and an
  aggregation pipeline is not cast. Below, POST /api/search/index stores the record of
  the scenario (status 201), and GET /api/search/tags/popular?businessId=B1 on the
  resulting store answers 200 with an empty list. Handed the \<^verbatim>\<open>ObjectId\<close>, as the
  suggestions handler builds it, the same static on the same store returns "fast"
  with count 1.
\<close>

theorem popular_tags_uncast_businessId:
  "api_index engine0 1000 payload_fast store0 =
     (\<lparr>status = 201, success = True, error = None, data = Some (doc_fast 0 1000),
       count' = None\<rparr>,
      \<lparr>docs = [doc_fast 0 1000], next_id = 1, calls = [Save (doc_fast 0 1000)]\<rparr>) \<and>
   businessId (doc_fast 0 1000) = ''B1'' \<and> tags (doc_fast 0 1000) = [''fast''] \<and>
   isActive (doc_fast 0 1000) \<and>
   rq_businessId rq_b1 = Some ''B1'' \<and>
   route_get [''api'', ''search'', ''tags'', ''popular''] = Some PopularTags \<and>
   http_get engine0 [''api'', ''search'', ''tags'', ''popular''] rq_b1
       (snd (api_index engine0 1000 payload_fast store0)) =
     (PopularTagsResponse
        \<lparr>status = 200, success = True, error = None, data = Some [], count' = Some 0\<rparr>,
      \<lparr>docs = [doc_fast 0 1000], next_id = 1,
       calls = [Save (doc_fast 0 1000),
                Aggregate [Match [BusinessIdIs (Str ''B1''), IsActiveIs True], UnwindTags,
                           GroupByTagCount, SortCountDesc, Limit (Num 20)]]\<rparr>) \<and>
   fst (getPopularTags engine0 (ObjectId ''B1'') (Some (Num 20))
          (snd (api_index engine0 1000 payload_fast store0))) = Inr [(''fast'', 1)]"
proof -
  have r: "route_get [''api'', ''search'', ''tags'', ''popular''] = Some PopularTags"
    by (simp add: route_get_def get_routes_def)
  have d: "businessId (doc_fast 0 1000) = ''B1''" "tags (doc_fast 0 1000) = [''fast'']"
    "isActive (doc_fast 0 1000)" "rq_businessId rq_b1 = Some ''B1''"
    by (simp_all add: doc_fast_def rq_b1_def)
  show ?thesis
    by (simp add: http_get_def r d popular_handler_eval popular_fast_eval) (simp add: create_eval)
qed

subsection \<open>C9: the high-rated listing\<close>

text \<open>
  C9. With two records rated 5 and 3 for the same business, the high-rated listing
  with \<^verbatim>\<open>minRating=4\<close> should return the record rated 5 alone. The static
  \<^verbatim>\<open>getContentByRating\<close> ends its query with \<^verbatim>\<open>populate('franchiseId', 'name')\<close>; the schema
  refers that path to a model \<^verbatim>\<open>'Franchise'\<close>, which this service never registers, and
  every record the service writes has a \<^verbatim>\<open>franchiseId\<close> (\<^verbatim>\<open>null\<close> by default). Below, POST
  /api/search/index/bulk stores the two records (status 201); on the resulting store
  the static rejects, and the handler written for GET /api/search/high-rated answers
  500. The request GET /api/search/high-rated?businessId=B1&minRating=4 does not even
  reach that handler: the route \<^verbatim>\<open>/api/search/:contentType\<close> is registered first, so it
  is served by the content-type search with \<^verbatim>\<open>contentType = 'high-rated'\<close>, which answers
  200 with an empty list. (On the same two records without a \<^verbatim>\<open>franchiseId\<close> field the
  static returns the record rated 5 alone: the filter is the one the claim describes.)
\<close>

theorem high_rated_listing_unavailable:
  "api_index_bulk engine0 1000 (Items [payload_rated 5, payload_rated 3]) store0 =
     (\<lparr>status = 201, success = True, error = None,
       data = Some [doc_rated 0 5 1000, doc_rated 1 3 1000], count' = Some 2\<rparr>,
      store53) \<and>
   map (\<lambda>d. (businessId d, rating (metadata d), isActive d, franchiseId d)) (docs store53) =
     [(''B1'', Some 5, True, Null), (''B1'', Some 3, True, Null)] \<and>
   rq_businessId rq_min4 = Some ''B1'' \<and> rq_minRating rq_min4 = Some ''4'' \<and>
   fst (getContentByRating engine0 (Str ''B1'') (Some (Num 4)) (Some (Num 20)) store53) =
     Inl MissingSchemaError \<and>
   fst (api_high_rated engine0 rq_min4 store53) =
     failure 500 ''Failed to fetch high-rated content'' \<and>
   route_get [''api'', ''search'', ''high-rated''] = Some SearchByContentType \<and>
   http_get engine0 [''api'', ''search'', ''high-rated''] rq_min4 store53 =
     (SearchResponse
        \<lparr>status = 200, success = True, error = None, data = Some [],
         count' = Some 0, r_contentType = Some ''high-rated'', r_query = None,
         r_filters = Some (request_options None rq_min4)\<rparr>,
      store53\<lparr>calls := calls store53 @
         [Find [BusinessIdIs (Str ''B1''), ContentTypeIs ''high-rated'', IsActiveIs True]
               [(TextScore, Desc), (IndexedAt, Desc)] (Num 50) (Num 0)]\<rparr>) \<and>
   fst (getContentByRating engine0 (Str ''B1'') (Some (Num 4)) (Some (Num 20))
          (store53\<lparr>docs := map unlinked (docs store53)\<rparr>)) =
     Inr [unlinked (doc_rated 0 5 1000)]"
proof -
  have r: "route_get [''api'', ''search'', ''high-rated''] = Some SearchByContentType"
    by (simp add: route_get_def get_routes_def)
  have d: "map (\<lambda>d. (businessId d, rating (metadata d), isActive d, franchiseId d)) (docs store53) =
     [(''B1'', Some 5, True, Null), (''B1'', Some 3, True, Null)]"
    "rq_businessId rq_min4 = Some ''B1''" "rq_minRating rq_min4 = Some ''4''"
    by (simp_all add: store53_def doc_rated_def rq_min4_def)
  show ?thesis
    by (simp add: http_get_def r d bulk53_eval by_rating_53_eval high_rated_handler_eval
        by_type_high_rated_eval by_rating_53_unlinked_eval)
qed

subsection \<open>C10: suggestions for a short query\<close>

text \<open>
  C10. A suggestions call whose \<^verbatim>\<open>q\<close> is absent or shorter than two characters should be
  answered with an empty success envelope and no query to storage. The route
  \<^verbatim>\<open>/api/search/:contentType\<close> is registered before \<^verbatim>\<open>/api/search/suggestions\<close> and matches
  its path, so GET /api/search/suggestions?q=a is served by the content-type search
  with \<^verbatim>\<open>contentType = 'suggestions'\<close>: a \<^verbatim>\<open>find\<close> is issued, the envelope is the one of the
  search, and when storage refuses the call the answer is status 500.
\<close>

theorem suggestions_route_shadowed:
  "route_get [''api'', ''search'', ''suggestions''] = Some SearchByContentType \<and>
   rq_q rq_a = Some ''a'' \<and>
   http_get engine0 [''api'', ''search'', ''suggestions''] rq_a store1 =
     (SearchResponse
        \<lparr>status = 200, success = True, error = None, data = Some [],
         count' = Some 0, r_contentType = Some ''suggestions'', r_query = Some ''a'',
         r_filters = Some (request_options None rq_a)\<rparr>,
      store1\<lparr>calls := [Find [TextSearch ''a'', ContentTypeIs ''suggestions'', IsActiveIs True]
                            [(TextScore, Desc), (IndexedAt, Desc)] (Num 50) (Num 0)]\<rparr>) \<and>
   http_get (engine0\<lparr>refuses := \<lambda>c. True\<rparr>) [''api'', ''search'', ''suggestions''] rq_a store1 =
     (SearchResponse (search_failure 500 ''Failed to search by content type''),
      store1\<lparr>calls := [Find [TextSearch ''a'', ContentTypeIs ''suggestions'', IsActiveIs True]
                            [(TextScore, Desc), (IndexedAt, Desc)] (Num 50) (Num 0)]\<rparr>)"
proof -
  have r: "route_get [''api'', ''search'', ''suggestions''] = Some SearchByContentType"
    by (simp add: route_get_def get_routes_def)
  have q: "rq_q rq_a = Some ''a''" by (simp add: rq_a_def)
  have d: "api_search_by_type (engine0\<lparr>refuses := \<lambda>c. True\<rparr>) ''suggestions'' rq_a store1 =
     (search_failure 500 ''Failed to search by content type'',
      store1\<lparr>calls := [Find [TextSearch ''a'', ContentTypeIs ''suggestions'', IsActiveIs True]
                            [(TextScore, Desc), (IndexedAt, Desc)] (Num 50) (Num 0)]\<rparr>)"
    by (simp add: search_defs parse_defs rq_a_def rq_none_def example_defs Let_def)
  show ?thesis
    by (simp add: http_get_def r q by_type_suggestions_eval d)
qed

subsection \<open>The suggestions handler on its own\<close>

text \<open>
  The handler registered for \<^verbatim>\<open>/api/search/suggestions\<close>, taken as a function: when \<^verbatim>\<open>q\<close> is
  absent, empty or shorter than two characters it answers with status 200, an empty
  list and count 0, and returns the store as it received it.
\<close>

theorem suggestions_handler_short_query:
  assumes "\<not> truthy_str (sq_q sq) \<or> length (or_default [] (sq_q sq)) < 2"
  shows "api_suggestions E sq st =
           (\<lparr>status = 200, success = True, error = None, data = Some [], count' = Some 0\<rparr>, st)"
  using assms by (auto simp: api_suggestions_def)

theorem suggestions_handler_short_query_witness:
  "length (or_default [] (sq_q (sq_fast\<lparr>sq_q := Some ''a''\<rparr>))) < 2 \<and>
   api_suggestions engine0 (sq_fast\<lparr>sq_q := Some ''a''\<rparr>) store1 =
           (\<lparr>status = 200, success = True, error = None, data = Some [], count' = Some 0\<rparr>, store1)"
  using suggestions_handler_short_query [of "sq_fast\<lparr>sq_q := Some ''a''\<rparr>" engine0 store1]
  by (simp add: sq_fast_def)

end
